theory Spec2Isabelle
  imports Main "HOL-Library.Sublist"
begin

section \<open>Agent Orchestrator: trigger engine, webhook receiver, lifecycle manager\<close>

text \<open>
  A shallow embedding of the TypeScript sources
  \<^verbatim>\<open>packages/core/src/trigger-engine.ts\<close>,
  \<^verbatim>\<open>packages/web/src/lib/webhook-utils.ts\<close>,
  \<^verbatim>\<open>packages/web/src/app/api/webhooks/github/route.ts\<close> and the lifecycle manager
  (\<^verbatim>\<open>lifecycle-manager.ts\<close>).

  Conventions. A JavaScript string is a \<open>string\<close>, one \<open>char\<close> per code unit. An
  optional field (\<open>T | undefined\<close>, \<open>T | null\<close>) is a \<open>T option\<close>; where the source
  tests such a string for truthiness, the empty string counts as absent, as in JavaScript.
  A union of string literals is a datatype. \<open>Date.now()\<close> is an \<open>int\<close> of milliseconds
  handed to the function that reads the clock. Module-level and closure-level maps
  (\<open>seenDeliveries\<close>, \<open>prpPhases\<close>, \<open>reactionTrackers\<close>) are passed in and returned.
  A call on a collaborator that the source wraps in \<open>try\<close> may fail, and the model has
  the branch; a call that the source does not guard (\<open>sessionManager.list\<close>,
  \<open>getServices\<close>, the metadata write) is taken to return.
\<close>

subsection \<open>Strings\<close>

text \<open>\<open>String.prototype.includes\<close>: the argument occurs somewhere in the receiver.\<close>

fun str_includes :: "string \<Rightarrow> string \<Rightarrow> bool" where
  "str_includes [] t = (t = [])"
| "str_includes (c # cs) t = (prefix t (c # cs) \<or> str_includes cs t)"

text \<open>\<open>String(n)\<close> for a non-negative integer \<open>n\<close>: its decimal digits.\<close>

fun String_of_number :: "nat \<Rightarrow> string" where
  "String_of_number n =
     (if n < 10 then [''0123456789'' ! n]
      else String_of_number (n div 10) @ [''0123456789'' ! (n mod 10)])"

declare String_of_number.simps [simp del]

text \<open>JavaScript truthiness of an optional string: present and not empty.\<close>

definition truthy :: "string option \<Rightarrow> bool" where
  "truthy s = (case s of None \<Rightarrow> False | Some v \<Rightarrow> v \<noteq> [])"

subsection \<open>Data model (types.ts, as far as the modelled functions read it)\<close>

text \<open>
  Modelled from the spec: \<^verbatim>\<open>types.ts\<close> is not among the sources. The types below
  follow the specification's data model and carry the fields that the modelled functions
  read or write, under the names the sources use for them.
\<close>

datatype provider = Github | Plane

datatype trigger_event_type =
  Issue_opened | Issue_labeled | Issue_assigned | Issue_reopened | Issue_comment

datatype session_status =
  Spawning | Working | Needs_input | Stuck | Pr_open | Ci_failed | Review_pending
  | Changes_requested | Approved | Mergeable | Merged | Errored | Killed | Terminated
  | Done | Cleanup

record issue =
  i_id :: string
  i_number :: nat
  i_title :: string
  i_state :: string
  i_labels :: "string list"
  i_assignees :: "string list"
  i_url :: string

record tracker_event =
  e_provider :: provider
  e_deliveryId :: string
  e_event :: trigger_event_type
  e_action :: string
  e_issue :: issue
  e_repo :: string
  e_label :: "string option"
  e_assignee :: "string option"
  e_sender :: string
  e_commentBody :: "string option"

record trigger_rule =
  r_on :: trigger_event_type
  r_label :: "string option"
  r_assignee :: "string option"

record prp_writeback =
  wb_investigation :: "bool option"
  wb_plan :: "bool option"
  wb_implementation :: "bool option"
  wb_pr :: "bool option"

record prp_config =
  prp_enabled :: bool
  prp_gates_plan :: "bool option"
  prp_writeback :: "prp_writeback option"

datatype event_priority = Urgent | Action | Warning | Info

datatype reaction_action = Send_to_agent | Notify | Auto_merge

text \<open>\<open>escalateAfter?: number | string\<close>.\<close>

datatype escalate_after = Escalate_count int | Escalate_duration string

record reaction_config =
  rc_auto :: "bool option"
  rc_action :: "reaction_action option"
  rc_message :: "string option"
  rc_priority :: "event_priority option"
  rc_retries :: "int option"
  rc_escalateAfter :: "escalate_after option"

record project_config =
  p_repo :: string
  p_path :: string
  p_github_secret :: "string option"
  p_plane_workspaceId :: "string option"
  p_triggers :: "trigger_rule list option"
  p_tracker :: "string option"
  p_scm :: "string option"
  p_agent :: "string option"
  p_runtime :: "string option"
  p_prp :: "prp_config option"
  p_reactions :: "(string \<times> reaction_config) list"

text \<open>
  \<open>config.projects\<close> is an object: \<open>Object.entries\<close> and \<open>Object.values\<close> walk the
  association list in order, \<open>config.projects[id]\<close> is \<open>map_of\<close>.
\<close>

record orchestrator_config =
  c_configPath :: string
  c_projects :: "(string \<times> project_config) list"
  c_default_agent :: string
  c_default_runtime :: string
  c_default_notifiers :: "string list"
  c_notificationRouting :: "event_priority \<Rightarrow> string list option"
  c_reactions :: "(string \<times> reaction_config) list"

record session =
  s_id :: string
  s_projectId :: string
  s_status :: session_status
  s_branch :: "string option"
  s_issueId :: "string option"
  s_workspacePath :: "string option"
  s_runtimeHandle :: "string option"
  s_pr :: "string option"
  s_metadata :: "string \<rightharpoonup> string"

record spawn_decision =
  d_projectId :: string
  d_issueId :: string
  d_event :: tracker_event
  d_matchedRule :: trigger_rule

subsection \<open>trigger-engine.ts\<close>

definition DELIVERY_TTL_MS :: int where
  "DELIVERY_TTL_MS = 600000"

type_synonym deliveries = "string \<rightharpoonup> int"

text \<open>\<open>pruneDeliveries\<close>: drop every id whose timestamp is more than the TTL old.\<close>

definition pruneDeliveries :: "int \<Rightarrow> deliveries \<Rightarrow> deliveries" where
  "pruneDeliveries now seen =
     (\<lambda>id. case seen id of
              None \<Rightarrow> None
            | Some ts \<Rightarrow> if now - ts > DELIVERY_TTL_MS then None else Some ts)"

text \<open>
  \<open>isDuplicate\<close>: prune, then report a known id, or record an unknown one with the
  current time. The two clock readings of one call are the same instant \<open>now\<close>.
\<close>

definition isDuplicate :: "int \<Rightarrow> string \<Rightarrow> deliveries \<Rightarrow> bool \<times> deliveries" where
  "isDuplicate now deliveryId seen =
     (let pruned = pruneDeliveries now seen in
      if pruned deliveryId \<noteq> None then (True, pruned)
      else (False, pruned(deliveryId \<mapsto> now)))"

fun findProject :: "tracker_event \<Rightarrow> (string \<times> project_config) list \<Rightarrow> string option" where
  "findProject event [] = None"
| "findProject event ((projectId, project) # rest) =
     (if e_provider event = Github then
        (if p_repo project = e_repo event then Some projectId else findProject event rest)
      else
        (case p_plane_workspaceId project of
           None \<Rightarrow> findProject event rest
         | Some workspaceId \<Rightarrow>
             if workspaceId \<noteq> [] \<and> str_includes (e_repo event) workspaceId
             then Some projectId else findProject event rest))"

definition ruleMatches :: "trigger_rule \<Rightarrow> tracker_event \<Rightarrow> bool" where
  "ruleMatches rule event =
     (if r_on rule \<noteq> e_event event then False
      else if r_on rule = Issue_labeled \<and> truthy (r_label rule) then e_label event = r_label rule
      else if r_on rule = Issue_assigned \<and> truthy (r_assignee rule)
           then e_assignee event = r_assignee rule
      else True)"

definition terminal_statuses :: "session_status list" where
  "terminal_statuses = [Killed, Terminated, Done, Cleanup, Errored, Merged]"

text \<open>The predicate handed to \<open>sessions.some\<close> in step 4 of \<open>evaluateTriggers\<close>.\<close>

definition activeSessionFor :: "string \<Rightarrow> session \<Rightarrow> bool" where
  "activeSessionFor issueId s =
     ((case s_issueId s of None \<Rightarrow> False | Some i \<Rightarrow> str_includes i issueId)
      \<and> s_status s \<notin> set terminal_statuses)"

text \<open>
  \<open>evaluateTriggers\<close>. \<open>list\<close> is \<open>sessionManager.list\<close>; \<open>seen\<close> is the module's
  \<open>seenDeliveries\<close> map, returned as left by the call.
\<close>

definition evaluateTriggers ::
  "int \<Rightarrow> tracker_event \<Rightarrow> orchestrator_config \<Rightarrow> (string \<Rightarrow> session list) \<Rightarrow> deliveries
   \<Rightarrow> spawn_decision option \<times> deliveries" where
  "evaluateTriggers now event config list seen =
     (case isDuplicate now (e_deliveryId event) seen of
        (True, seen') \<Rightarrow> (None, seen')
      | (False, seen') \<Rightarrow>
          (case findProject event (c_projects config) of
             None \<Rightarrow> (None, seen')
           | Some projectId \<Rightarrow>
               (case map_of (c_projects config) projectId of
                  None \<Rightarrow> (None, seen')
                | Some project \<Rightarrow>
                    (let triggers = (case p_triggers project of None \<Rightarrow> [] | Some ts \<Rightarrow> ts)
                     in case find (\<lambda>rule. ruleMatches rule event) triggers of
                          None \<Rightarrow> (None, seen')
                        | Some matchedRule \<Rightarrow>
                            (let issueId = String_of_number (i_number (e_issue event));
                                 sessions = list projectId;
                                 hasActiveSession = list_ex (activeSessionFor issueId) sessions
                             in if hasActiveSession then (None, seen')
                                else (Some \<lparr> d_projectId = projectId, d_issueId = issueId,
                                             d_event = event, d_matchedRule = matchedRule \<rparr>,
                                      seen'))))))"

subsection \<open>Effects and the shared store\<close>

text \<open>What a thrown JavaScript exception is, as a value.\<close>

datatype js_error = RangeError | TypeError | NotFound

record orchestrator_event =
  ev_type :: string
  ev_priority :: event_priority
  ev_sessionId :: string
  ev_projectId :: string
  ev_message :: string

text \<open>
  The calls the modelled code makes on its collaborators, in the order it makes them:
  \<open>SessionManager.send\<close>, \<open>SessionManager.spawn\<close>, \<open>Tracker.updateIssue\<close> with a
  comment (issue id, comment, project id) and \<open>Notifier.notify\<close> (notifier name, event).
\<close>

datatype effect =
  Send string string
  | Spawn string string
  | UpdateIssue string string string
  | NotifyCall string orchestrator_event

text \<open>
  The plugin registry, as far as the code asks it: whether
  \<open>registry.get("tracker", name)?.updateIssue\<close> is defined, and whether
  \<open>registry.get(slot, name)\<close> is, for the notifier, agent, runtime and scm slots.
\<close>

record registry =
  reg_tracker_updateIssue :: "string \<Rightarrow> bool"
  reg_notifier :: "string \<Rightarrow> bool"
  reg_agent :: "string \<Rightarrow> bool"
  reg_runtime :: "string \<Rightarrow> bool"
  reg_scm :: "string \<Rightarrow> bool"

text \<open>
  Modelled from the spec: the session manager's \<open>list(projectId?)\<close>
  (\<^verbatim>\<open>session-manager.ts\<close> is not among the sources). The store holds one record per
  session; \<open>list\<close> reads all of them, or those of one project.
\<close>

definition sm_list :: "session list \<Rightarrow> string option \<Rightarrow> session list" where
  "sm_list store projectId =
     (case projectId of None \<Rightarrow> store
      | Some p \<Rightarrow> filter (\<lambda>s. s_projectId s = p) store)"

text \<open>
  Modelled from the spec: \<open>updateMetadata(sessionsDir, id, patch)\<close> (\<^verbatim>\<open>metadata.ts\<close>
  and \<^verbatim>\<open>paths.ts\<close> are not among the sources) is the specification's UpdateMerge: the
  keys of the patch are merged into the session's record, other keys stay. The sessions
  directory is derived from the project, so the project id stands for it.
\<close>

definition updateMetadata ::
  "string \<Rightarrow> string \<Rightarrow> string \<Rightarrow> string \<Rightarrow> session list \<Rightarrow> session list" where
  "updateMetadata projectId sessionId key val store =
     map (\<lambda>s. if s_id s = sessionId \<and> s_projectId s = projectId
              then s\<lparr> s_metadata := (s_metadata s)(key \<mapsto> val) \<rparr> else s) store"

subsection \<open>webhook-utils.ts\<close>

definition hex_value :: "char \<Rightarrow> nat option" where
  "hex_value c =
     (let n = of_char c :: nat in
      if 48 \<le> n \<and> n \<le> 57 then Some (n - 48)
      else if 97 \<le> n \<and> n \<le> 102 then Some (n - 87)
      else if 65 \<le> n \<and> n \<le> 70 then Some (n - 55)
      else None)"

text \<open>
  \<open>Buffer.from(s, "hex")\<close>: two hex digits make a byte; decoding stops at the first pair
  that is not two hex digits, and a trailing single character is dropped.
\<close>

fun Buffer_from_hex :: "string \<Rightarrow> nat list" where
  "Buffer_from_hex (a # b # rest) =
     (case (hex_value a, hex_value b) of
        (Some x, Some y) \<Rightarrow> (16 * x + y) # Buffer_from_hex rest
      | _ \<Rightarrow> [])"
| "Buffer_from_hex _ = []"

text \<open>\<open>crypto.timingSafeEqual\<close> throws a RangeError on buffers of different length.\<close>

definition timingSafeEqual :: "nat list \<Rightarrow> nat list \<Rightarrow> js_error + bool" where
  "timingSafeEqual a b = (if length a \<noteq> length b then Inl RangeError else Inr (a = b))"

text \<open>\<open>s.replace(pat, "")\<close> with a string pattern: the first occurrence is removed.\<close>

fun replace_first :: "string \<Rightarrow> string \<Rightarrow> string" where
  "replace_first pat [] = []"
| "replace_first pat (c # cs) =
     (if prefix pat (c # cs) then drop (length pat) (c # cs)
      else c # replace_first pat cs)"

text \<open>
  \<open>verifySignature\<close>. \<open>hmac secret body\<close> stands for
  \<open>createHmac("sha256", secret).update(body).digest("hex")\<close>.
\<close>

definition verifySignature ::
  "(string \<Rightarrow> string \<Rightarrow> string) \<Rightarrow> string \<Rightarrow> string option \<Rightarrow> string \<Rightarrow> string
   \<Rightarrow> js_error + bool" where
  "verifySignature hmac body signature secret pfx =
     (case signature of
        None \<Rightarrow> Inr False
      | Some sig \<Rightarrow>
          if sig = [] then Inr False
          else
            (let expected = hmac secret body;
                 actual = (if pfx \<noteq> [] then replace_first pfx sig else sig)
             in if length expected \<noteq> length actual then Inr False
                else timingSafeEqual (Buffer_from_hex expected) (Buffer_from_hex actual)))"


subsection \<open>webhooks/github/route.ts\<close>

text \<open>
  The parsed request body, as far as the route reads it. A field that the route reads
  through an unchecked cast and that may be missing is an option.
\<close>

record gh_issue =
  gi_number :: nat
  gi_title :: string
  gi_state :: string
  gi_html_url :: string
  gi_labels :: "string list option"
  gi_assignees :: "string list option"

record gh_payload =
  pl_action :: "string option"
  pl_issue :: "gh_issue option"
  pl_comment_body :: "string option option"
  pl_repository_full_name :: "string option option"
  pl_sender_login :: "string option"
  pl_label_name :: "string option"
  pl_assignee_login :: "string option"

definition issue_of :: "gh_issue \<Rightarrow> issue" where
  "issue_of gi =
     \<lparr> i_id = String_of_number (gi_number gi), i_number = gi_number gi,
       i_title = gi_title gi, i_state = gi_state gi,
       i_labels = (case gi_labels gi of None \<Rightarrow> [] | Some ls \<Rightarrow> ls),
       i_assignees = (case gi_assignees gi of None \<Rightarrow> [] | Some as \<Rightarrow> as),
       i_url = gi_html_url gi \<rparr>"

definition normalizeGitHubEvent ::
  "string \<Rightarrow> string option \<Rightarrow> string \<Rightarrow> gh_payload \<Rightarrow> tracker_event option" where
  "normalizeGitHubEvent eventType action deliveryId payload =
     (if eventType = ''issue_comment'' \<and> action = Some ''created'' then
        (case (pl_issue payload, pl_comment_body payload, pl_repository_full_name payload) of
           (Some gi, Some body, Some full_name) \<Rightarrow>
             Some \<lparr> e_provider = Github, e_deliveryId = deliveryId, e_event = Issue_comment,
                    e_action = ''created'', e_issue = issue_of gi,
                    e_repo = (case full_name of None \<Rightarrow> [] | Some r \<Rightarrow> r),
                    e_label = None, e_assignee = None,
                    e_sender = (case pl_sender_login payload of None \<Rightarrow> ''unknown'' | Some l \<Rightarrow> l),
                    e_commentBody = Some (case body of None \<Rightarrow> [] | Some b \<Rightarrow> b) \<rparr>
         | _ \<Rightarrow> None)
      else if eventType \<noteq> ''issues'' then None
      else
        (case (if action = Some ''labeled'' then Some Issue_labeled
               else if action = Some ''assigned'' then Some Issue_assigned
               else if action = Some ''opened'' then Some Issue_opened
               else if action = Some ''reopened'' then Some Issue_reopened
               else None) of
           None \<Rightarrow> None
         | Some normalizedEvent \<Rightarrow>
             (case (pl_issue payload, pl_repository_full_name payload) of
                (Some gi, Some full_name) \<Rightarrow>
                  Some \<lparr> e_provider = Github, e_deliveryId = deliveryId,
                         e_event = normalizedEvent,
                         e_action = (case action of None \<Rightarrow> [] | Some a \<Rightarrow> a),
                         e_issue = issue_of gi,
                         e_repo = (case full_name of None \<Rightarrow> [] | Some r \<Rightarrow> r),
                         e_label = pl_label_name payload,
                         e_assignee = pl_assignee_login payload,
                         e_sender =
                           (case pl_sender_login payload of None \<Rightarrow> ''unknown'' | Some l \<Rightarrow> l),
                         e_commentBody = None \<rparr>
              | _ \<Rightarrow> None)))"

text \<open>
  \<open>APPROVAL_PATTERN = /\b(approved?|lgtm|proceed|go ahead)\b/i\<close> and its \<open>test\<close>: at some
  position there is a word boundary, one of the alternatives read without regard to the
  case of ASCII letters, and a word boundary again. \<open>\w\<close> is \<open>[A-Za-z0-9_]\<close>.
\<close>

definition is_word_char :: "char \<Rightarrow> bool" where
  "is_word_char c =
     (let n = of_char c :: nat in
      (48 \<le> n \<and> n \<le> 57) \<or> (65 \<le> n \<and> n \<le> 90) \<or> (97 \<le> n \<and> n \<le> 122) \<or> n = 95)"

definition word_boundary :: "string \<Rightarrow> nat \<Rightarrow> bool" where
  "word_boundary s i =
     ((0 < i \<and> i \<le> length s \<and> is_word_char (s ! (i - 1)))
      \<noteq> (i < length s \<and> is_word_char (s ! i)))"

definition lower_ascii :: "char \<Rightarrow> char" where
  "lower_ascii c =
     (let n = of_char c :: nat in if 65 \<le> n \<and> n \<le> 90 then char_of (n + 32) else c)"

definition approval_words :: "string list" where
  "approval_words = [''approved'', ''approve'', ''lgtm'', ''proceed'', ''go ahead'']"

definition matches_word_at :: "string \<Rightarrow> nat \<Rightarrow> string \<Rightarrow> bool" where
  "matches_word_at s i w =
     (map lower_ascii (take (length w) (drop i s)) = w \<and> word_boundary s (i + length w))"

definition APPROVAL_PATTERN_test :: "string \<Rightarrow> bool" where
  "APPROVAL_PATTERN_test s =
     list_ex (\<lambda>i. word_boundary s i \<and> list_ex (matches_word_at s i) approval_words)
       [0 ..< Suc (length s)]"

text \<open>
  The state the webhook handlers and the lifecycle manager share: the session store, the
  trigger engine's \<open>seenDeliveries\<close>, and the calls made so far.
\<close>

record world =
  w_store :: "session list"
  w_seen :: deliveries
  w_log :: "effect list"

text \<open>
  What \<open>JSON.parse\<close> returns: \<open>null\<close>, whose properties cannot be read, or a value whose
  properties the route reads.
\<close>

datatype parsed_body = Parsed_null | Parsed_object gh_payload

text \<open>
  What the route's collaborators answer: \<open>JSON.parse\<close> (\<open>None\<close> when it throws), the HMAC,
  whether \<open>SessionManager.send\<close> resolves, what \<open>SessionManager.spawn\<close> resolves to
  (\<open>None\<close> when it rejects), and the clock.
\<close>

record env =
  JSON_parse :: "string \<Rightarrow> parsed_body option"
  hmac_sha256_hex :: "string \<Rightarrow> string \<Rightarrow> string"
  send_ok :: "string \<Rightarrow> string \<Rightarrow> bool"
  spawn_result :: "string \<Rightarrow> string \<Rightarrow> session option"
  clock :: int

datatype response_body =
  Error_body string
  | Skipped string
  | Resumed string
  | Spawned string
  | Spawn_failed

datatype response = Response nat response_body

text \<open>Characters outside ASCII in the source's string literals are their UTF-8 bytes.\<close>

definition check_mark :: string where
  "check_mark = [CHR 0xE2, CHR 0x9C, CHR 0x85]"

definition robot_face :: string where
  "robot_face = [CHR 0xF0, CHR 0x9F, CHR 0xA4, CHR 0x96]"

definition resume_message :: string where
  "resume_message =
     ''Plan approved by human reviewer. Continue with implementation using /prp-ralph.''"

definition confirmation_comment :: "string \<Rightarrow> string" where
  "confirmation_comment sessionId =
     check_mark @ '' **Agent Orchestrator** plan approved. Session `'' @ sessionId
       @ ''` is resuming.''"

text \<open>The predicate handed to \<open>sessions.find\<close> in \<open>handleIssueComment\<close>.\<close>

definition isGatedSessionFor :: "tracker_event \<Rightarrow> session \<Rightarrow> bool" where
  "isGatedSessionFor event s =
     (case s_issueId s of
        None \<Rightarrow> False
      | Some issueId \<Rightarrow>
          if issueId = [] then False
          else
            (let matchesUrl = (issueId = i_url (e_issue event)
                               \<or> suffix (''/'' @ i_id (e_issue event)) issueId);
                 isGated = (s_metadata s ''prpPhase'' = Some ''plan_gate'')
             in matchesUrl \<and> isGated))"

definition tracker_can_comment :: "registry \<Rightarrow> project_config option \<Rightarrow> bool" where
  "tracker_can_comment reg project =
     (case project of
        None \<Rightarrow> False
      | Some p \<Rightarrow> (case p_tracker p of None \<Rightarrow> False | Some t \<Rightarrow> reg_tracker_updateIssue reg t))"

definition handleIssueComment ::
  "env \<Rightarrow> tracker_event \<Rightarrow> orchestrator_config \<Rightarrow> registry \<Rightarrow> world \<Rightarrow> response_body \<times> world"
  where
  "handleIssueComment env event config reg w =
     (if \<not> truthy (e_commentBody event) \<or> \<not> APPROVAL_PATTERN_test (the (e_commentBody event))
      then (Skipped ''not an approval comment'', w)
      else
        (case find (isGatedSessionFor event) (sm_list (w_store w) None) of
           None \<Rightarrow> (Skipped ''no gated session for this issue'', w)
         | Some gatedSession \<Rightarrow>
             (let w1 = w\<lparr> w_log := w_log w @ [Send (s_id gatedSession) resume_message] \<rparr> in
              if \<not> send_ok env (s_id gatedSession) resume_message
              then (Skipped ''resume failed'', w1)
              else
                (let project = map_of (c_projects config) (s_projectId gatedSession);
                     w2 = (case project of
                             None \<Rightarrow> w1
                           | Some p \<Rightarrow>
                               w1\<lparr> w_store := updateMetadata (s_projectId gatedSession)
                                      (s_id gatedSession) ''prpPhase'' ''implementing''
                                      (w_store w1) \<rparr>);
                     w3 = (if tracker_can_comment reg project
                           then w2\<lparr> w_log := w_log w2 @
                                  [UpdateIssue (i_id (e_issue event))
                                     (confirmation_comment (s_id gatedSession))
                                     (s_projectId gatedSession)] \<rparr>
                           else w2)
                 in (Resumed (''resumed session '' @ s_id gatedSession), w3)))))"

fun findSecret :: "string \<Rightarrow> (string \<times> project_config) list \<Rightarrow> string option" where
  "findSecret repo [] = None"
| "findSecret repo ((projectId, project) # rest) =
     (if p_repo project = repo then p_github_secret project else findSecret repo rest)"

record request =
  rq_body :: string
  rq_github_event :: "string option"
  rq_github_delivery :: "string option"
  rq_signature :: "string option"

definition spawned_comment :: "session \<Rightarrow> string" where
  "spawned_comment s =
     robot_face @ '' **Agent Orchestrator** spawned session `'' @ s_id s @ ''` for this issue.''
       @ [CHR 0x0A, CHR 0x0A] @ ''Branch: `''
       @ (case s_branch s of None \<Rightarrow> ''unknown'' | Some b \<Rightarrow> b) @ ''`''"

text \<open>
  \<open>POST\<close>. An exception that no handler of the route catches leaves it as \<open>Inl\<close>:
  reading \<open>payload.repository\<close> of \<open>null\<close>, and what \<open>verifySignature\<close> throws. A session
  that \<open>spawn\<close> resolves to is in the store from then on.
\<close>

definition POST ::
  "env \<Rightarrow> orchestrator_config \<Rightarrow> registry \<Rightarrow> request \<Rightarrow> world \<Rightarrow> (js_error + response) \<times> world"
  where
  "POST env config reg req w =
     (let body = rq_body req;
          eventType = (case rq_github_event req of None \<Rightarrow> [] | Some e \<Rightarrow> e);
          deliveryId = (case rq_github_delivery req of None \<Rightarrow> [] | Some d \<Rightarrow> d);
          signature = rq_signature req
      in case JSON_parse env body of
           None \<Rightarrow> (Inr (Response 400 (Error_body ''Invalid JSON'')), w)
         | Some Parsed_null \<Rightarrow> (Inl TypeError, w)
         | Some (Parsed_object payload) \<Rightarrow>
             (case (case pl_repository_full_name payload of None \<Rightarrow> None | Some fn \<Rightarrow> fn) of
                None \<Rightarrow> (Inr (Response 200 (Skipped ''no repository'')), w)
              | Some repo \<Rightarrow>
                  if repo = [] then (Inr (Response 200 (Skipped ''no repository'')), w)
                  else if \<not> truthy (findSecret repo (c_projects config))
                  then (Inr (Response 200 (Skipped ''no project config for repo'')), w)
                  else
                    (case verifySignature (hmac_sha256_hex env) body signature
                            (the (findSecret repo (c_projects config))) ''sha256='' of
                       Inl err \<Rightarrow> (Inl err, w)
                     | Inr False \<Rightarrow> (Inr (Response 401 (Error_body ''Invalid signature'')), w)
                     | Inr True \<Rightarrow>
                         (case normalizeGitHubEvent eventType (pl_action payload) deliveryId
                                 payload of
                            None \<Rightarrow> (Inr (Response 200 (Skipped ''not an actionable event'')), w)
                          | Some trackerEvent \<Rightarrow>
                              if e_event trackerEvent = Issue_comment then
                                (case handleIssueComment env trackerEvent config reg w of
                                   (result, w') \<Rightarrow> (Inr (Response 200 result), w'))
                              else
                                (case evaluateTriggers (clock env) trackerEvent config
                                        (\<lambda>p. sm_list (w_store w) (Some p)) (w_seen w) of
                                   (None, seen') \<Rightarrow>
                                     (Inr (Response 200 (Skipped ''no trigger matched'')),
                                      w\<lparr> w_seen := seen' \<rparr>)
                                 | (Some decision, seen') \<Rightarrow>
                                     (let w1 = w\<lparr> w_seen := seen',
                                                  w_log := w_log w @
                                                    [Spawn (d_projectId decision)
                                                       (d_issueId decision)] \<rparr>
                                      in case spawn_result env (d_projectId decision)
                                                (d_issueId decision) of
                                           None \<Rightarrow> (Inr (Response 200 Spawn_failed), w1)
                                         | Some s \<Rightarrow>
                                             (let w2 = w1\<lparr> w_store := w_store w1 @ [s] \<rparr>;
                                                  project = map_of (c_projects config)
                                                              (d_projectId decision);
                                                  w3 = (if tracker_can_comment reg project
                                                        then w2\<lparr> w_log := w_log w2 @
                                                               [UpdateIssue (d_issueId decision)
                                                                  (spawned_comment s)
                                                                  (d_projectId decision)] \<rparr>
                                                        else w2)
                                              in (Inr (Response 200 (Spawned (s_id s))),
                                                  w3))))))))"


subsection \<open>lifecycle-manager.ts: helpers\<close>

definition is_digit :: "char \<Rightarrow> bool" where
  "is_digit c = (let n = of_char c :: nat in 48 \<le> n \<and> n \<le> 57)"

text \<open>\<open>parseInt(ds, 10)\<close> on a string of decimal digits.\<close>

definition parseInt10 :: "string \<Rightarrow> int" where
  "parseInt10 ds = foldl (\<lambda>acc c. 10 * acc + (int (of_char c) - 48)) 0 ds"

text \<open>
  \<open>parseDuration\<close>: the string must match \<open>/^(\d+)(s|m|h)$/\<close>, that is one or more digits
  and then one unit letter; anything else is 0. Numbers are exact integers.
\<close>

definition parseDuration :: "string \<Rightarrow> int" where
  "parseDuration str =
     (if str = [] then 0
      else
        (let ds = butlast str; unit = last str in
         if ds = [] \<or> \<not> list_all is_digit ds then 0
         else if unit = CHR ''s'' then parseInt10 ds * 1000
         else if unit = CHR ''m'' then parseInt10 ds * 60000
         else if unit = CHR ''h'' then parseInt10 ds * 3600000
         else 0))"

text \<open>An \<open>EventType\<close> is its string, since \<open>inferPriority\<close> searches inside it.\<close>

definition inferPriority :: "string \<Rightarrow> event_priority" where
  "inferPriority type =
     (if str_includes type ''stuck'' \<or> str_includes type ''needs_input''
         \<or> str_includes type ''errored'' then Urgent
      else if prefix ''summary.'' type then Info
      else if str_includes type ''approved'' \<or> str_includes type ''ready''
              \<or> str_includes type ''merged'' \<or> str_includes type ''completed'' then Action
      else if str_includes type ''fail'' \<or> str_includes type ''changes_requested''
              \<or> str_includes type ''conflicts'' then Warning
      else Info)"

definition createEvent ::
  "string \<Rightarrow> string \<Rightarrow> string \<Rightarrow> string \<Rightarrow> event_priority option \<Rightarrow> orchestrator_event" where
  "createEvent type sessionId projectId message priority =
     \<lparr> ev_type = type,
       ev_priority = (case priority of None \<Rightarrow> inferPriority type | Some p \<Rightarrow> p),
       ev_sessionId = sessionId, ev_projectId = projectId, ev_message = message \<rparr>"

text \<open>The name of a status: the string the source compares and stores.\<close>

fun status_name :: "session_status \<Rightarrow> string" where
  "status_name Spawning = ''spawning''"
| "status_name Working = ''working''"
| "status_name Needs_input = ''needs_input''"
| "status_name Stuck = ''stuck''"
| "status_name Pr_open = ''pr_open''"
| "status_name Ci_failed = ''ci_failed''"
| "status_name Review_pending = ''review_pending''"
| "status_name Changes_requested = ''changes_requested''"
| "status_name Approved = ''approved''"
| "status_name Mergeable = ''mergeable''"
| "status_name Merged = ''merged''"
| "status_name Errored = ''errored''"
| "status_name Killed = ''killed''"
| "status_name Terminated = ''terminated''"
| "status_name Done = ''done''"
| "status_name Cleanup = ''cleanup''"

text \<open>
  \<open>statusToEventType(_from, to)\<close> ignores its first argument. It is applied to the
  old status too, which may be a string read from the metadata file.
\<close>

definition statusToEventType :: "string \<Rightarrow> string option" where
  "statusToEventType to =
     (if to = ''working'' then Some ''session.working''
      else if to = ''pr_open'' then Some ''pr.created''
      else if to = ''ci_failed'' then Some ''ci.failing''
      else if to = ''review_pending'' then Some ''review.pending''
      else if to = ''changes_requested'' then Some ''review.changes_requested''
      else if to = ''approved'' then Some ''review.approved''
      else if to = ''mergeable'' then Some ''merge.ready''
      else if to = ''merged'' then Some ''merge.completed''
      else if to = ''needs_input'' then Some ''session.needs_input''
      else if to = ''stuck'' then Some ''session.stuck''
      else if to = ''errored'' then Some ''session.errored''
      else if to = ''killed'' then Some ''session.killed''
      else None)"

definition eventToReactionKey :: "string \<Rightarrow> string option" where
  "eventToReactionKey eventType =
     (if eventType = ''ci.failing'' then Some ''ci-failed''
      else if eventType = ''review.changes_requested'' then Some ''changes-requested''
      else if eventType = ''automated_review.found'' then Some ''bugbot-comments''
      else if eventType = ''merge.conflicts'' then Some ''merge-conflicts''
      else if eventType = ''merge.ready'' then Some ''approved-and-green''
      else if eventType = ''session.stuck'' then Some ''agent-stuck''
      else if eventType = ''session.needs_input'' then Some ''agent-needs-input''
      else if eventType = ''session.killed'' then Some ''agent-exited''
      else if eventType = ''summary.all_complete'' then Some ''all-complete''
      else None)"

subsection \<open>lifecycle-manager.ts: determineStatus\<close>

text \<open>
  Modelled from the spec: the constants are declared in \<^verbatim>\<open>types.ts\<close>, which is not
  among the sources. The values the source tells apart in what the SCM plugin answers: \<open>PR_STATE.MERGED\<close>,
  \<open>PR_STATE.CLOSED\<close>, \<open>CI_STATUS.FAILING\<close>, the three review decisions it names, and
  anything else.
\<close>

datatype pr_state = PR_MERGED | PR_CLOSED | PR_other

datatype ci_status = CI_FAILING | CI_other

datatype review_decision =
  Review_changes_requested | Review_approved | Review_pending_decision | Review_other

datatype activity = Waiting_input | Activity_other

text \<open>
  What the plugins answer during one \<open>determineStatus\<close>; \<open>None\<close> is a call that throws
  or rejects.
\<close>

record probes =
  pb_isAlive :: "bool option"
  pb_getOutput :: "string option"
  pb_detectActivity :: "activity option"
  pb_isProcessRunning :: "bool option"
  pb_getPRState :: "pr_state option"
  pb_getCISummary :: "ci_status option"
  pb_getReviewDecision :: "review_decision option"
  pb_getMergeability :: "bool option"

datatype 'a flow = Return 'a | Fall_through | Raised

text \<open>Step 2, the body of the \<open>try\<close>.\<close>

definition probe_agent :: "bool \<Rightarrow> probes \<Rightarrow> session_status flow" where
  "probe_agent runtime_found pb =
     (case (if runtime_found then pb_getOutput pb else Some []) of
        None \<Rightarrow> Raised
      | Some terminalOutput \<Rightarrow>
          if terminalOutput = [] then Fall_through
          else
            (case pb_detectActivity pb of
               None \<Rightarrow> Raised
             | Some activity \<Rightarrow>
                 if activity = Waiting_input then Return Needs_input
                 else
                   (case pb_isProcessRunning pb of
                      None \<Rightarrow> Raised
                    | Some processAlive \<Rightarrow>
                        if \<not> processAlive then Return Killed else Fall_through)))"

text \<open>Step 3, the body of the \<open>try\<close>.\<close>

definition probe_pr :: "probes \<Rightarrow> session_status flow" where
  "probe_pr pb =
     (case pb_getPRState pb of
        None \<Rightarrow> Raised
      | Some prState \<Rightarrow>
          if prState = PR_MERGED then Return Merged
          else if prState = PR_CLOSED then Return Killed
          else
            (case pb_getCISummary pb of
               None \<Rightarrow> Raised
             | Some ciStatus \<Rightarrow>
                 if ciStatus = CI_FAILING then Return Ci_failed
                 else
                   (case pb_getReviewDecision pb of
                      None \<Rightarrow> Raised
                    | Some reviewDecision \<Rightarrow>
                        if reviewDecision = Review_changes_requested
                        then Return Changes_requested
                        else if reviewDecision = Review_approved then
                          (case pb_getMergeability pb of
                             None \<Rightarrow> Raised
                           | Some mergeable \<Rightarrow>
                               if mergeable then Return Mergeable else Return Approved)
                        else if reviewDecision = Review_pending_decision
                        then Return Review_pending
                        else Return Pr_open)))"

definition determineStatus ::
  "orchestrator_config \<Rightarrow> registry \<Rightarrow> probes \<Rightarrow> session \<Rightarrow> session_status" where
  "determineStatus config reg pb session =
     (case map_of (c_projects config) (s_projectId session) of
        None \<Rightarrow> s_status session
      | Some project \<Rightarrow>
          (let agent = reg_agent reg
                         (case p_agent project of None \<Rightarrow> c_default_agent config | Some a \<Rightarrow> a);
               scm = (case p_scm project of None \<Rightarrow> False | Some n \<Rightarrow> reg_scm reg n);
               runtime = reg_runtime reg
                           (case p_runtime project of
                              None \<Rightarrow> c_default_runtime config | Some r \<Rightarrow> r);
               default_status =
                 (if s_status session = Spawning \<or> s_status session = Stuck
                     \<or> s_status session = Needs_input then Working
                  else s_status session);
               from_pr =
                 (if s_pr session \<noteq> None \<and> scm then
                    (case probe_pr pb of Return st \<Rightarrow> st | _ \<Rightarrow> default_status)
                  else default_status);
               from_agent =
                 (if agent \<and> s_runtimeHandle session \<noteq> None then
                    (case probe_agent runtime pb of
                       Return st \<Rightarrow> st
                     | Fall_through \<Rightarrow> from_pr
                     | Raised \<Rightarrow>
                         if s_status session = Stuck \<or> s_status session = Needs_input
                         then s_status session else from_pr)
                  else from_pr)
           in if s_runtimeHandle session \<noteq> None \<and> runtime
                 \<and> (case pb_isAlive pb of None \<Rightarrow> True | Some alive \<Rightarrow> alive) = False
              then Killed
              else from_agent))"

subsection \<open>lifecycle-manager.ts: the reaction engine\<close>

record reaction_tracker =
  rt_attempts :: nat
  rt_firstTriggered :: int

record reaction_result =
  rr_reactionType :: string
  rr_success :: bool
  rr_action :: string
  rr_message :: "string option"
  rr_escalated :: bool

text \<open>
  \<open>notifyHuman\<close>: every notifier of the priority's route (or of the defaults) that the
  registry knows is called with the event, its priority replaced.
\<close>

definition notifyHuman ::
  "orchestrator_config \<Rightarrow> registry \<Rightarrow> orchestrator_event \<Rightarrow> event_priority \<Rightarrow> effect list" where
  "notifyHuman config reg event priority =
     (let eventWithPriority = event\<lparr> ev_priority := priority \<rparr>;
          notifierNames = (case c_notificationRouting config priority of
                             None \<Rightarrow> c_default_notifiers config | Some ns \<Rightarrow> ns)
      in map (\<lambda>name. NotifyCall name eventWithPriority) (filter (reg_notifier reg) notifierNames))"

text \<open>
  The escalation test of \<open>executeReaction\<close>, on the tracker as incremented. A missing
  \<open>retries\<close> is \<open>Infinity\<close>.
\<close>

definition shouldEscalate :: "int \<Rightarrow> reaction_config \<Rightarrow> reaction_tracker \<Rightarrow> bool" where
  "shouldEscalate now rc tracker =
     ((case rc_retries rc of None \<Rightarrow> False | Some maxRetries \<Rightarrow> int (rt_attempts tracker) > maxRetries)
      \<or> (case rc_escalateAfter rc of
            Some (Escalate_duration str) \<Rightarrow>
              (let durationMs = parseDuration str
               in durationMs > 0 \<and> now - rt_firstTriggered tracker > durationMs)
          | _ \<Rightarrow> False)
      \<or> (case rc_escalateAfter rc of
            Some (Escalate_count n) \<Rightarrow> int (rt_attempts tracker) > n
          | _ \<Rightarrow> False))"

type_synonym trackers = "string \<rightharpoonup> reaction_tracker"

text \<open>
  \<open>executeReaction\<close>. \<open>now\<close> is the clock, \<open>sendOk\<close> whether \<open>sessionManager.send\<close>
  resolves. The result comes with the tracker map as left by the call and the calls made.
\<close>

definition executeReaction ::
  "int \<Rightarrow> bool \<Rightarrow> orchestrator_config \<Rightarrow> registry \<Rightarrow> trackers \<Rightarrow> string \<Rightarrow> string \<Rightarrow> string
   \<Rightarrow> reaction_config \<Rightarrow> reaction_result \<times> trackers \<times> effect list" where
  "executeReaction now sendOk config reg reactionTrackers sessionId projectId reactionKey rc =
     (let trackerKey = sessionId @ '':'' @ reactionKey;
          tracker0 = (case reactionTrackers trackerKey of
                        None \<Rightarrow> \<lparr> rt_attempts = 0, rt_firstTriggered = now \<rparr>
                      | Some t \<Rightarrow> t);
          tracker = tracker0\<lparr> rt_attempts := rt_attempts tracker0 + 1 \<rparr>;
          trackers' = reactionTrackers(trackerKey \<mapsto> tracker)
      in if shouldEscalate now rc tracker then
           (let event = createEvent ''reaction.escalated'' sessionId projectId
                          (''Reaction '' @ [CHR 0x27] @ reactionKey @ [CHR 0x27]
                             @ '' escalated after '' @ String_of_number (rt_attempts tracker)
                             @ '' attempts'') None
            in (\<lparr> rr_reactionType = reactionKey, rr_success = True, rr_action = ''escalated'',
                   rr_message = None, rr_escalated = True \<rparr>,
                trackers',
                notifyHuman config reg event
                  (case rc_priority rc of None \<Rightarrow> Urgent | Some p \<Rightarrow> p)))
         else
           (case (case rc_action rc of None \<Rightarrow> Notify | Some a \<Rightarrow> a) of
              Send_to_agent \<Rightarrow>
                if truthy (rc_message rc) then
                  (if sendOk then
                     (\<lparr> rr_reactionType = reactionKey, rr_success = True,
                         rr_action = ''send-to-agent'', rr_message = rc_message rc,
                         rr_escalated = False \<rparr>,
                      trackers', [Send sessionId (the (rc_message rc))])
                   else
                     (\<lparr> rr_reactionType = reactionKey, rr_success = False,
                         rr_action = ''send-to-agent'', rr_message = None,
                         rr_escalated = False \<rparr>,
                      trackers', [Send sessionId (the (rc_message rc))]))
                else
                  (\<lparr> rr_reactionType = reactionKey, rr_success = False,
                      rr_action = ''send-to-agent'', rr_message = None, rr_escalated = False \<rparr>,
                   trackers', [])
            | Notify \<Rightarrow>
                (\<lparr> rr_reactionType = reactionKey, rr_success = True, rr_action = ''notify'',
                    rr_message = None, rr_escalated = False \<rparr>,
                 trackers',
                 notifyHuman config reg
                   (createEvent ''reaction.triggered'' sessionId projectId
                      (''Reaction '' @ [CHR 0x27] @ reactionKey @ [CHR 0x27]
                         @ '' triggered notification'') None)
                   (case rc_priority rc of None \<Rightarrow> Info | Some p \<Rightarrow> p))
            | Auto_merge \<Rightarrow>
                (\<lparr> rr_reactionType = reactionKey, rr_success = True, rr_action = ''auto-merge'',
                    rr_message = None, rr_escalated = False \<rparr>,
                 trackers',
                 notifyHuman config reg
                   (createEvent ''reaction.triggered'' sessionId projectId
                      (''Reaction '' @ [CHR 0x27] @ reactionKey @ [CHR 0x27]
                         @ '' triggered auto-merge'') None)
                   Action)))"


subsection \<open>lifecycle-manager.ts: writeback comments\<close>




definition em_dash :: string where
  "em_dash = [CHR 0xE2, CHR 0x80, CHR 0x94]"

definition right_arrow :: string where
  "right_arrow = [CHR 0xE2, CHR 0x86, CHR 0x92]"

definition newline :: string where
  "newline = [CHR 0x0A]"

text \<open>\<open>lines.join("\n")\<close>.\<close>

fun join_lines :: "string list \<Rightarrow> string" where
  "join_lines [] = []"
| "join_lines [l] = l"
| "join_lines (l # m # ls) = l @ newline @ join_lines (m # ls)"

text \<open>
  The issue id that \<open>writebackToTracker\<close> hands to the tracker:
  \<open>issueId.match(/\/(\d+)$/)?.[1] ?? issueId\<close>, the digits after the last slash when
  the string ends with a slash and one or more digits.
\<close>

definition trailing_issue_number :: "string \<Rightarrow> string" where
  "trailing_issue_number issueId =
     (let ds = rev (takeWhile is_digit (rev issueId)) in
      if ds \<noteq> [] \<and> length ds < length issueId
         \<and> issueId ! (length issueId - length ds - 1) = CHR ''/''
      then ds else issueId)"

definition writebackToTracker ::
  "orchestrator_config \<Rightarrow> registry \<Rightarrow> session \<Rightarrow> string \<Rightarrow> effect list" where
  "writebackToTracker config reg session comment =
     (if \<not> truthy (s_issueId session) then []
      else if \<not> tracker_can_comment reg (map_of (c_projects config) (s_projectId session))
      then []
      else [UpdateIssue (trailing_issue_number (the (s_issueId session))) comment
              (s_projectId session)])"

definition prp_of :: "project_config option \<Rightarrow> prp_config option" where
  "prp_of project = (case project of None \<Rightarrow> None | Some p \<Rightarrow> p_prp p)"

definition getWritebackComment ::
  "session \<Rightarrow> session_status \<Rightarrow> project_config option \<Rightarrow> string option" where
  "getWritebackComment session newStatus project =
     (if newStatus = Pr_open then
        (if (case prp_of project of
               None \<Rightarrow> False
             | Some prp \<Rightarrow>
                 prp_enabled prp
                 \<and> (case prp_writeback prp of None \<Rightarrow> False | Some wb \<Rightarrow> wb_pr wb = Some False))
         then None
         else Some (join_lines (filter (\<lambda>l. l \<noteq> [])
                [robot_face @ '' **Agent Orchestrator** completed work on this issue.'',
                 [],
                 (case s_pr session of None \<Rightarrow> [] | Some url \<Rightarrow> ''Pull Request: '' @ url),
                 ''Session: `'' @ s_id session @ ''`''])))
      else if newStatus = Stuck then
        Some (join_lines
                [robot_face @ '' **Agent Orchestrator** session `'' @ s_id session
                   @ ''` needs attention.'',
                 [], ''Status: stuck''])
      else if newStatus = Errored then
        Some (join_lines
                [robot_face @ '' **Agent Orchestrator** session `'' @ s_id session
                   @ ''` needs attention.'',
                 [], ''Status: errored''])
      else None)"


text \<open>
  The file system as \<open>buildPlanGateComment\<close> reads it: \<open>readdirSync\<close> and
  \<open>readFileSync\<close>, \<open>None\<close> when they throw. \<open>path.join\<close> puts a slash between its parts.
\<close>

record file_system =
  fs_readdir :: "string \<Rightarrow> string list option"
  fs_readFile :: "string \<Rightarrow> string option"








subsection \<open>lifecycle-manager.ts: checkSession\<close>

text \<open>The maps and flags that \<open>createLifecycleManager\<close> closes over.\<close>

record lm_state =
  lm_states :: "string \<rightharpoonup> session_status"
  lm_prpPhases :: "string \<rightharpoonup> string"
  lm_reactionTrackers :: trackers
  lm_allCompleteEmitted :: bool


text \<open>What the outside answers during one \<open>checkSession\<close>.\<close>

record lm_env =
  le_clock :: int
  le_send_ok :: bool
  le_probes :: probes
  le_fs :: file_system

text \<open>\<open>{...globalReaction, ...projectReaction}\<close>: a key of the project's entry wins.\<close>

definition merge_reaction :: "reaction_config option \<Rightarrow> reaction_config \<Rightarrow> reaction_config" where
  "merge_reaction g p =
     \<lparr> rc_auto = (case rc_auto p of Some v \<Rightarrow> Some v
                  | None \<Rightarrow> (case g of None \<Rightarrow> None | Some gg \<Rightarrow> rc_auto gg)),
       rc_action = (case rc_action p of Some v \<Rightarrow> Some v
                    | None \<Rightarrow> (case g of None \<Rightarrow> None | Some gg \<Rightarrow> rc_action gg)),
       rc_message = (case rc_message p of Some v \<Rightarrow> Some v
                     | None \<Rightarrow> (case g of None \<Rightarrow> None | Some gg \<Rightarrow> rc_message gg)),
       rc_priority = (case rc_priority p of Some v \<Rightarrow> Some v
                      | None \<Rightarrow> (case g of None \<Rightarrow> None | Some gg \<Rightarrow> rc_priority gg)),
       rc_retries = (case rc_retries p of Some v \<Rightarrow> Some v
                     | None \<Rightarrow> (case g of None \<Rightarrow> None | Some gg \<Rightarrow> rc_retries gg)),
       rc_escalateAfter = (case rc_escalateAfter p of Some v \<Rightarrow> Some v
                           | None \<Rightarrow> (case g of None \<Rightarrow> None
                                       | Some gg \<Rightarrow> rc_escalateAfter gg)) \<rparr>"

definition reactionConfigFor ::
  "orchestrator_config \<Rightarrow> project_config option \<Rightarrow> string \<Rightarrow> reaction_config option" where
  "reactionConfigFor config project reactionKey =
     (let globalReaction = map_of (c_reactions config) reactionKey;
          projectReaction = (case project of None \<Rightarrow> None
                             | Some p \<Rightarrow> map_of (p_reactions p) reactionKey)
      in case projectReaction of
           None \<Rightarrow> globalReaction
         | Some pr \<Rightarrow> Some (merge_reaction globalReaction pr))"

text \<open>The old status of \<open>checkSession\<close>, as the string that is compared.\<close>

definition oldStatusOf :: "lm_state \<Rightarrow> session \<Rightarrow> string" where
  "oldStatusOf lm session =
     (case lm_states lm (s_id session) of
        Some tracked \<Rightarrow> status_name tracked
      | None \<Rightarrow>
          (if truthy (s_metadata session ''status'') then the (s_metadata session ''status'')
           else status_name (s_status session)))"

text \<open>
  The first half of \<open>checkSession\<close>, the status transition, in the order of the source:
  clearing the reaction tracker of the old status, choosing the reaction for the event,
  reacting or notifying, and the whole.
\<close>

definition clearOldReaction :: "string \<Rightarrow> string \<Rightarrow> lm_state \<Rightarrow> lm_state" where
  "clearOldReaction sessionId oldStatus lm =
     (case statusToEventType oldStatus of
        None \<Rightarrow> lm
      | Some oldEventType \<Rightarrow>
          (case eventToReactionKey oldEventType of
             None \<Rightarrow> lm
           | Some oldReactionKey \<Rightarrow>
               lm\<lparr> lm_reactionTrackers :=
                     (lm_reactionTrackers lm)(sessionId @ '':'' @ oldReactionKey := None) \<rparr>))"

text \<open>
  The reaction that handles an event, if any: the event has a reaction key, the merged
  configuration has an action, and \<open>auto\<close> is not \<open>false\<close> or the action is \<open>notify\<close>.
\<close>

definition reactionFor ::
  "orchestrator_config \<Rightarrow> project_config option \<Rightarrow> string
   \<Rightarrow> (string \<times> reaction_config) option" where
  "reactionFor config project eventType =
     (case eventToReactionKey eventType of
        None \<Rightarrow> None
      | Some reactionKey \<Rightarrow>
          (case reactionConfigFor config project reactionKey of
             None \<Rightarrow> None
           | Some rc \<Rightarrow>
               if rc_action rc \<noteq> None \<and> (rc_auto rc \<noteq> Some False \<or> rc_action rc = Some Notify)
               then Some (reactionKey, rc) else None))"

definition handleTransition ::
  "lm_env \<Rightarrow> orchestrator_config \<Rightarrow> registry \<Rightarrow> session \<Rightarrow> string \<Rightarrow> session_status
   \<Rightarrow> string \<Rightarrow> lm_state \<times> world \<Rightarrow> lm_state \<times> world" where
  "handleTransition env config reg session oldStatus newStatus eventType st =
     (case st of (lm, w) \<Rightarrow>
        (case reactionFor config (map_of (c_projects config) (s_projectId session)) eventType of
           Some (reactionKey, rc) \<Rightarrow>
             (case executeReaction (le_clock env) (le_send_ok env) config reg
                     (lm_reactionTrackers lm) (s_id session) (s_projectId session)
                     reactionKey rc of
                (result, trackers', effects) \<Rightarrow>
                  (lm\<lparr> lm_reactionTrackers := trackers' \<rparr>,
                   w\<lparr> w_log := w_log w @ effects \<rparr>))
         | None \<Rightarrow>
             (let priority = inferPriority eventType in
              if priority \<noteq> Info then
                (lm,
                 w\<lparr> w_log := w_log w @
                        notifyHuman config reg
                          (createEvent eventType (s_id session) (s_projectId session)
                             (s_id session @ '': '' @ oldStatus @ '' '' @ right_arrow @ '' ''
                                @ status_name newStatus)
                             None)
                          priority \<rparr>)
              else (lm, w))))"

definition checkSession_status ::
  "lm_env \<Rightarrow> orchestrator_config \<Rightarrow> registry \<Rightarrow> session \<Rightarrow> lm_state \<times> world
   \<Rightarrow> lm_state \<times> world" where
  "checkSession_status env config reg session st =
     (case st of (lm, w) \<Rightarrow>
        (let oldStatus = oldStatusOf lm session;
             newStatus = determineStatus config reg (le_probes env) session;
             lm1 = lm\<lparr> lm_states := (lm_states lm)(s_id session \<mapsto> newStatus) \<rparr>
         in if status_name newStatus = oldStatus then (lm1, w)
            else
              (let project = map_of (c_projects config) (s_projectId session);
                   w1 = (case project of
                           None \<Rightarrow> w
                         | Some p \<Rightarrow>
                             w\<lparr> w_store := updateMetadata (s_projectId session) (s_id session)
                                    ''status'' (status_name newStatus) (w_store w) \<rparr>);
                   w2 = (case getWritebackComment session newStatus project of
                           None \<Rightarrow> w1
                         | Some c \<Rightarrow>
                             w1\<lparr> w_log := w_log w1 @ writebackToTracker config reg session c \<rparr>);
                   lm2 = (if newStatus \<noteq> Merged \<and> newStatus \<noteq> Killed
                          then lm1\<lparr> lm_allCompleteEmitted := False \<rparr> else lm1);
                   lm3 = clearOldReaction (s_id session) oldStatus lm2
               in case statusToEventType (status_name newStatus) of
                    None \<Rightarrow> (lm3, w2)
                  | Some eventType \<Rightarrow>
                      handleTransition env config reg session oldStatus newStatus eventType
                        (lm3, w2))))"









subsection \<open>Fixtures\<close>

text \<open>
  The configuration, event and session of the trigger engine's test suite (\<open>makeConfig\<close>,
  \<open>makeEvent\<close>, \<open>existingSession\<close>), used for the concrete instances below.
\<close>

definition makeProject :: project_config where
  "makeProject =
     \<lparr> p_repo = ''org/my-app'', p_path = ''/tmp/my-app'', p_github_secret = Some ''test-secret'',
       p_plane_workspaceId = None,
       p_triggers = Some [\<lparr> r_on = Issue_labeled, r_label = Some ''agent-work'',
                            r_assignee = None \<rparr>],
       p_tracker = Some ''github'', p_scm = Some ''github'', p_agent = None, p_runtime = None,
       p_prp = None, p_reactions = [] \<rparr>"

definition makeConfig :: orchestrator_config where
  "makeConfig =
     \<lparr> c_configPath = ''/tmp/test.yaml'', c_projects = [(''my-app'', makeProject)],
       c_default_agent = ''claude-code'', c_default_runtime = ''tmux'',
       c_default_notifiers = [''desktop''],
       c_notificationRouting = (\<lambda>p. None), c_reactions = [] \<rparr>"

definition makeIssue :: issue where
  "makeIssue =
     \<lparr> i_id = ''42'', i_number = 42, i_title = ''Test issue'', i_state = ''open'',
       i_labels = [''agent-work''], i_assignees = [''developer''],
       i_url = ''https://github.com/org/my-app/issues/42'' \<rparr>"

definition makeEvent :: tracker_event where
  "makeEvent =
     \<lparr> e_provider = Github, e_deliveryId = ''fixed-id'', e_event = Issue_labeled,
       e_action = ''labeled'', e_issue = makeIssue, e_repo = ''org/my-app'',
       e_label = Some ''agent-work'', e_assignee = None, e_sender = ''developer'',
       e_commentBody = None \<rparr>"

definition existingSession :: session where
  "existingSession =
     \<lparr> s_id = ''app-1'', s_projectId = ''my-app'', s_status = Working,
       s_branch = Some ''feat/issue-42'',
       s_issueId = Some ''https://github.com/org/my-app/issues/42'',
       s_workspacePath = None, s_runtimeHandle = None, s_pr = None,
       s_metadata = Map.empty \<rparr>"

text \<open>A rule on \<open>issue.opened\<close> that carries a label filter, and an \<open>issue.opened\<close> event.\<close>

definition openedRuleWithLabel :: trigger_rule where
  "openedRuleWithLabel = \<lparr> r_on = Issue_opened, r_label = Some ''bug'', r_assignee = None \<rparr>"

definition openedEvent :: tracker_event where
  "openedEvent = makeEvent\<lparr> e_event := Issue_opened, e_action := ''opened'', e_label := None \<rparr>"

text \<open>A project with three rules, of which the second and the third match \<open>makeEvent\<close>.\<close>

definition threeRuleProject :: project_config where
  "threeRuleProject =
     makeProject\<lparr> p_triggers :=
       Some [\<lparr> r_on = Issue_assigned, r_label = None, r_assignee = Some ''ao-bot'' \<rparr>,
             \<lparr> r_on = Issue_labeled, r_label = Some ''agent-work'', r_assignee = None \<rparr>,
             \<lparr> r_on = Issue_labeled, r_label = None, r_assignee = None \<rparr>] \<rparr>"

definition threeRuleConfig :: orchestrator_config where
  "threeRuleConfig = makeConfig\<lparr> c_projects := [(''my-app'', threeRuleProject)] \<rparr>"

subsection \<open>Histories used in the concrete instances\<close>

text \<open>
  The \<open>seenDeliveries\<close> map after the test suite's event was evaluated at time 0, and
  after the same delivery was evaluated again nine minutes later.
\<close>

definition seen_after_first :: deliveries where
  "seen_after_first = snd (evaluateTriggers 0 makeEvent makeConfig (\<lambda>p. []) Map.empty)"

definition seen_after_second :: deliveries where
  "seen_after_second =
     snd (evaluateTriggers 540000 makeEvent makeConfig (\<lambda>p. []) seen_after_first)"


text \<open>The parts of what \<open>executeReaction\<close> returns.\<close>

definition reaction_outcome :: "reaction_result \<times> trackers \<times> effect list \<Rightarrow> reaction_result" where
  "reaction_outcome r = fst r"

definition reaction_trackers :: "reaction_result \<times> trackers \<times> effect list \<Rightarrow> trackers" where
  "reaction_trackers r = fst (snd r)"

definition reaction_effects :: "reaction_result \<times> trackers \<times> effect list \<Rightarrow> effect list" where
  "reaction_effects r = snd (snd r)"


text \<open>
  A sequence of invocations of \<open>executeReaction\<close> for one session and one reaction key,
  each with its clock reading and its answer of \<open>send\<close>; the tracker map is threaded
  through.
\<close>

fun run_reactions ::
  "orchestrator_config \<Rightarrow> registry \<Rightarrow> string \<Rightarrow> string \<Rightarrow> string \<Rightarrow> reaction_config
   \<Rightarrow> (int \<times> bool) list \<Rightarrow> trackers \<Rightarrow> trackers" where
  "run_reactions config reg sessionId projectId reactionKey rc [] trackers = trackers"
| "run_reactions config reg sessionId projectId reactionKey rc ((now, sendOk) # rest) trackers =
     run_reactions config reg sessionId projectId reactionKey rc rest
       (reaction_trackers
          (executeReaction now sendOk config reg trackers sessionId projectId reactionKey rc))"


text \<open>The tracker that an invocation at time \<open>now\<close> leaves under the key.\<close>

definition bumped_tracker :: "int \<Rightarrow> trackers \<Rightarrow> string \<Rightarrow> reaction_tracker" where
  "bumped_tracker now trackers trackerKey =
     (case trackers trackerKey of
        None \<Rightarrow> \<lparr> rt_attempts = 1, rt_firstTriggered = now \<rparr>
      | Some t \<Rightarrow> \<lparr> rt_attempts = rt_attempts t + 1, rt_firstTriggered = rt_firstTriggered t \<rparr>)"


text \<open>The \<open>reaction.escalated\<close> event of \<open>executeReaction\<close>.\<close>

definition escalated_event :: "string \<Rightarrow> string \<Rightarrow> string \<Rightarrow> nat \<Rightarrow> orchestrator_event" where
  "escalated_event sessionId projectId reactionKey attempts =
     createEvent ''reaction.escalated'' sessionId projectId
       (''Reaction '' @ [CHR 0x27] @ reactionKey @ [CHR 0x27] @ '' escalated after ''
          @ String_of_number attempts @ '' attempts'') None"


text \<open>A registry that resolves every plugin name.\<close>

definition allPlugins :: registry where
  "allPlugins =
     \<lparr> reg_tracker_updateIssue = (\<lambda>n. True), reg_notifier = (\<lambda>n. True),
       reg_agent = (\<lambda>n. True), reg_runtime = (\<lambda>n. True), reg_scm = (\<lambda>n. True) \<rparr>"


text \<open>
  A reaction whose \<open>escalateAfter\<close> is the duration \<open>"0s"\<close>, the \<open>ci-failed\<close> reaction of
  the specification's scenario 4, and the tracker maps their invocations leave.
\<close>

definition zeroDurationReaction :: reaction_config where
  "zeroDurationReaction =
     \<lparr> rc_auto = None, rc_action = Some Send_to_agent, rc_message = Some ''CI failed'',
       rc_priority = None, rc_retries = Some 5,
       rc_escalateAfter = Some (Escalate_duration ''0s'') \<rparr>"

definition ci_failed_message :: string where
  "ci_failed_message = ''CI failed '' @ em_dash @ '' please fix''"

definition ciFailedReaction :: reaction_config where
  "ciFailedReaction =
     \<lparr> rc_auto = None, rc_action = Some Send_to_agent, rc_message = Some ci_failed_message,
       rc_priority = Some Warning, rc_retries = Some 2,
       rc_escalateAfter = Some (Escalate_duration ''30m'') \<rparr>"

definition trackers_after_first :: trackers where
  "trackers_after_first =
     reaction_trackers
       (executeReaction 0 True makeConfig allPlugins Map.empty ''app-1'' ''my-app'' ''ci-failed''
          zeroDurationReaction)"



text \<open>
  A session with a pull request, and what the plugins may answer about it: nothing of note,
  a closed pull request, and an approved and mergeable one.
\<close>

definition sessionWithPr :: session where
  "sessionWithPr = existingSession\<lparr> s_pr := Some ''https://github.com/org/my-app/pull/7'' \<rparr>"

definition quietProbes :: probes where
  "quietProbes =
     \<lparr> pb_isAlive = Some True, pb_getOutput = Some [], pb_detectActivity = Some Activity_other,
       pb_isProcessRunning = Some True, pb_getPRState = Some PR_other,
       pb_getCISummary = Some CI_other, pb_getReviewDecision = Some Review_other,
       pb_getMergeability = Some False \<rparr>"

definition closedPrProbes :: probes where
  "closedPrProbes = quietProbes\<lparr> pb_getPRState := Some PR_CLOSED \<rparr>"

definition approvedGreenProbes :: probes where
  "approvedGreenProbes =
     quietProbes\<lparr> pb_getReviewDecision := Some Review_approved, pb_getMergeability := Some True \<rparr>"

text \<open>
  The webhook route's test suite: an \<open>issue_comment\<close> delivery with the body "approved" on
  issue 42, the session \<open>app-1\<close> waiting at the plan gate, and an environment whose
  \<open>JSON.parse\<close> knows the text of this one delivery and throws on any other string, whose
  HMAC digest is 64 times the digit \<open>a\<close>, and whose \<open>send\<close> resolves or rejects as told.
\<close>

definition approvedCommentPayload :: gh_payload where
  "approvedCommentPayload =
     \<lparr> pl_action = Some ''created'',
       pl_issue = Some \<lparr> gi_number = 42, gi_title = ''Test issue'', gi_state = ''open'',
                         gi_html_url = ''https://github.com/org/my-app/issues/42'',
                         gi_labels = Some [''agent-work''],
                         gi_assignees = Some [''developer''] \<rparr>,
       pl_comment_body = Some (Some ''approved''),
       pl_repository_full_name = Some (Some ''org/my-app''),
       pl_sender_login = Some ''reviewer'', pl_label_name = None, pl_assignee_login = None \<rparr>"

definition approvedCommentBody :: string where
  "approvedCommentBody = ''{issue_comment created: approved, issue 42, org/my-app}''"

definition webhookEnv :: "bool \<Rightarrow> env" where
  "webhookEnv sendOk =
     \<lparr> JSON_parse = (\<lambda>b. if b = approvedCommentBody then Some (Parsed_object approvedCommentPayload)
                          else None),
       hmac_sha256_hex = (\<lambda>secret body. replicate 64 (CHR ''a'')),
       send_ok = (\<lambda>sessionId message. sendOk),
       spawn_result = (\<lambda>projectId issueId. None),
       clock = 0 \<rparr>"

definition approvedCommentRequest :: request where
  "approvedCommentRequest =
     \<lparr> rq_body = approvedCommentBody, rq_github_event = Some ''issue_comment'',
       rq_github_delivery = Some ''delivery-123'',
       rq_signature = Some (''sha256='' @ replicate 64 (CHR ''a'')) \<rparr>"

definition notJsonRequest :: request where
  "notJsonRequest =
     \<lparr> rq_body = ''not json'', rq_github_event = Some ''issues'',
       rq_github_delivery = Some ''delivery-124'', rq_signature = None \<rparr>"

definition gatedSession :: session where
  "gatedSession = existingSession\<lparr> s_metadata := [''prpPhase'' \<mapsto> ''plan_gate''] \<rparr>"

definition gatedWorld :: world where
  "gatedWorld = \<lparr> w_store = [gatedSession], w_seen = Map.empty, w_log = [] \<rparr>"

definition noTrackerConfig :: orchestrator_config where
  "noTrackerConfig =
     makeConfig\<lparr> c_projects := [(''my-app'', makeProject\<lparr> p_tracker := None \<rparr>)] \<rparr>"

definition approvedCommentEvent :: tracker_event where
  "approvedCommentEvent =
     \<lparr> e_provider = Github, e_deliveryId = ''delivery-123'', e_event = Issue_comment,
       e_action = ''created'', e_issue = makeIssue, e_repo = ''org/my-app'',
       e_label = None, e_assignee = None, e_sender = ''reviewer'',
       e_commentBody = Some ''approved'' \<rparr>"


text \<open>A second approval, and the world as the first approval leaves it.\<close>

definition lgtmCommentEvent :: tracker_event where
  "lgtmCommentEvent =
     approvedCommentEvent\<lparr> e_deliveryId := ''delivery-125'', e_commentBody := Some ''lgtm'' \<rparr>"

definition world_after_approval :: world where
  "world_after_approval =
     snd (handleIssueComment (webhookEnv True) approvedCommentEvent makeConfig allPlugins
            gatedWorld)"


text \<open>
  The same delivery without a signature header, with a signature of the wrong length, and
  with a signature of the right length that is not hexadecimal.
\<close>

definition missingSignatureRequest :: request where
  "missingSignatureRequest = approvedCommentRequest\<lparr> rq_signature := None \<rparr>"

definition wrongSignatureRequest :: request where
  "wrongSignatureRequest = approvedCommentRequest\<lparr> rq_signature := Some ''sha256=invalid'' \<rparr>"

definition nonHexSignatureRequest :: request where
  "nonHexSignatureRequest =
     approvedCommentRequest\<lparr> rq_signature := Some (''sha256='' @ replicate 64 (CHR ''z'')) \<rparr>"

subsection \<open>Observing the plan gate in a history\<close>




















subsection \<open>The specification's reading of the rules, for comparison\<close>

text \<open>
  The rule match as the specification words it: the event types are equal and every
  filter that the rule carries equals the event's field.
\<close>

definition spec_ruleMatches :: "trigger_rule \<Rightarrow> tracker_event \<Rightarrow> bool" where
  "spec_ruleMatches rule event =
     (r_on rule = e_event event
      \<and> (r_label rule \<noteq> None \<longrightarrow> e_label event = r_label rule)
      \<and> (r_assignee rule \<noteq> None \<longrightarrow> e_assignee event = r_assignee rule))"

text \<open>
  The escalation test as the specification words it: attempts exceed \<open>retries\<close>, or
  \<open>escalateAfter\<close> is a duration string \<open><n>{s|m|h}\<close> and the time since \<open>firstTriggered\<close>
  exceeds its parsed duration, or \<open>escalateAfter\<close> is a number and attempts exceed it.
\<close>

definition is_duration_string :: "string \<Rightarrow> bool" where
  "is_duration_string str =
     (str \<noteq> [] \<and> butlast str \<noteq> [] \<and> list_all is_digit (butlast str)
      \<and> last str \<in> {CHR ''s'', CHR ''m'', CHR ''h''})"

definition spec_shouldEscalate :: "int \<Rightarrow> reaction_config \<Rightarrow> reaction_tracker \<Rightarrow> bool" where
  "spec_shouldEscalate now rc tracker =
     ((\<exists>retries. rc_retries rc = Some retries \<and> int (rt_attempts tracker) > retries)
      \<or> (\<exists>str. rc_escalateAfter rc = Some (Escalate_duration str) \<and> is_duration_string str
             \<and> now - rt_firstTriggered tracker > parseDuration str)
      \<or> (\<exists>n. rc_escalateAfter rc = Some (Escalate_count n) \<and> int (rt_attempts tracker) > n))"


section \<open>Properties\<close>

subsection \<open>Shared lemmas\<close>

lemmas fixture_defs = makeEvent_def makeConfig_def makeProject_def makeIssue_def
  existingSession_def

lemmas trigger_defs = evaluateTriggers_def isDuplicate_def pruneDeliveries_def ruleMatches_def
  truthy_def activeSessionFor_def terminal_statuses_def DELIVERY_TTL_MS_def

lemma String_of_number_42: "String_of_number 42 = ''42''"
  by (simp add: String_of_number.simps)

lemma str_includes_self: "str_includes s s"
  by (cases s) auto


lemma evaluateTriggers_snd:
  "snd (evaluateTriggers now event config list seen)
     = snd (isDuplicate now (e_deliveryId event) seen)"
  by (auto simp: evaluateTriggers_def Let_def split: prod.splits option.splits bool.splits)

lemma evaluateTriggers_duplicate:
  "fst (isDuplicate now (e_deliveryId event) seen)
   \<Longrightarrow> evaluateTriggers now event config list seen = (None, pruneDeliveries now seen)"
  by (auto simp: evaluateTriggers_def isDuplicate_def Let_def split: prod.splits if_splits)

lemma evaluateTriggers_fresh:
  "\<not> fst (isDuplicate now (e_deliveryId event) seen)
   \<Longrightarrow> fst (evaluateTriggers now event config list seen)
       = fst (evaluateTriggers now event config list Map.empty)"
  by (auto simp: evaluateTriggers_def isDuplicate_def pruneDeliveries_def Let_def
        split: prod.splits if_splits option.splits bool.splits)

lemma seen_after_first_eq: "seen_after_first = [''fixed-id'' \<mapsto> 0]"
  by (simp add: seen_after_first_def evaluateTriggers_snd isDuplicate_def pruneDeliveries_def
        makeEvent_def)

lemma seen_after_second_eq: "seen_after_second = [''fixed-id'' \<mapsto> 0]"
  by (auto simp: seen_after_second_def evaluateTriggers_snd isDuplicate_def pruneDeliveries_def
        makeEvent_def seen_after_first_eq DELIVERY_TTL_MS_def)

lemma bumped_tracker_eq:
  "(case trackers k of None \<Rightarrow> \<lparr> rt_attempts = 0, rt_firstTriggered = now \<rparr> | Some t \<Rightarrow> t)
     \<lparr> rt_attempts := rt_attempts (case trackers k of
                           None \<Rightarrow> \<lparr> rt_attempts = 0, rt_firstTriggered = now \<rparr> | Some t \<Rightarrow> t) + 1 \<rparr>
   = bumped_tracker now trackers k"
proof (cases "trackers k")
  case None
  then show ?thesis by (simp add: bumped_tracker_def)
next
  case (Some t)
  then show ?thesis by (cases t) (simp add: bumped_tracker_def)
qed

lemma executeReaction_tracker:
  "reaction_trackers (executeReaction now sendOk config reg trackers sid pid key rc)
     = trackers(sid @ '':'' @ key \<mapsto> bumped_tracker now trackers (sid @ '':'' @ key))"
  unfolding executeReaction_def reaction_trackers_def Let_def bumped_tracker_eq
  by (simp split: reaction_action.splits option.splits)

lemma executeReaction_escalated:
  "rr_escalated (reaction_outcome (executeReaction now sendOk config reg trackers sid pid key rc))
     = shouldEscalate now rc (bumped_tracker now trackers (sid @ '':'' @ key))"
  unfolding executeReaction_def reaction_outcome_def Let_def bumped_tracker_eq
  by (simp split: reaction_action.splits option.splits)

lemma executeReaction_effects_escalated:
  "shouldEscalate now rc (bumped_tracker now trackers (sid @ '':'' @ key))
   \<Longrightarrow> reaction_effects (executeReaction now sendOk config reg trackers sid pid key rc)
       = notifyHuman config reg
           (escalated_event sid pid key
              (rt_attempts (bumped_tracker now trackers (sid @ '':'' @ key))))
           (case rc_priority rc of None \<Rightarrow> Urgent | Some p \<Rightarrow> p)"
  unfolding executeReaction_def reaction_effects_def Let_def bumped_tracker_eq
  by (simp add: escalated_event_def)

lemma executeReaction_effects_send:
  "\<not> shouldEscalate now rc (bumped_tracker now trackers (sid @ '':'' @ key))
   \<Longrightarrow> rc_action rc = Some Send_to_agent \<Longrightarrow> rc_message rc = Some msg \<Longrightarrow> msg \<noteq> []
   \<Longrightarrow> reaction_effects (executeReaction now sendOk config reg trackers sid pid key rc)
       = [Send sid msg]"
  unfolding executeReaction_def reaction_effects_def Let_def bumped_tracker_eq
  by (simp add: truthy_def)

lemma notifyHuman_events:
  "e \<in> set (notifyHuman config reg event priority)
   \<Longrightarrow> \<exists>name. e = NotifyCall name (event\<lparr> ev_priority := priority \<rparr>)"
  by (auto simp: notifyHuman_def Let_def)

lemma executeReaction_effects_not_escalated:
  "\<not> shouldEscalate now rc (bumped_tracker now trackers (sid @ '':'' @ key))
   \<Longrightarrow> e \<in> set (reaction_effects (executeReaction now sendOk config reg trackers sid pid key rc))
   \<Longrightarrow> (\<exists>m. e = Send sid m) \<or> (\<exists>name ev. e = NotifyCall name ev \<and> ev_type ev = ''reaction.triggered'')"
  unfolding executeReaction_def reaction_effects_def Let_def bumped_tracker_eq
  by (auto simp: createEvent_def split: reaction_action.splits option.splits if_splits
        dest!: notifyHuman_events)

lemma run_reactions_attempts:
  "calls \<noteq> [] \<Longrightarrow>
   map_option rt_attempts
     (run_reactions config reg sid pid key rc calls trackers (sid @ '':'' @ key))
   = Some ((case trackers (sid @ '':'' @ key) of None \<Rightarrow> 0 | Some t \<Rightarrow> rt_attempts t)
           + length calls)"
proof (induction calls arbitrary: trackers)
  case Nil
  then show ?case by simp
next
  case (Cons c calls)
  obtain now sendOk where c: "c = (now, sendOk)" by (cases c)
  define k where "k = sid @ '':'' @ key"
  define T where "T = trackers(k \<mapsto> bumped_tracker now trackers k)"
  have step: "run_reactions config reg sid pid key rc (c # calls) trackers
                = run_reactions config reg sid pid key rc calls T"
    by (simp add: c executeReaction_tracker T_def k_def)
  have Tk: "(case T k of None \<Rightarrow> 0 | Some t \<Rightarrow> rt_attempts t)
              = (case trackers k of None \<Rightarrow> 0 | Some t \<Rightarrow> rt_attempts t) + 1"
    by (simp add: T_def bumped_tracker_def split: option.splits)
  show ?case
  proof (cases "calls = []")
    case True
    have "map_option rt_attempts (T k) = Some ((case T k of None \<Rightarrow> 0 | Some t \<Rightarrow> rt_attempts t))"
      by (simp add: T_def)
    with True step Tk show ?thesis by (simp add: k_def)
  next
    case False
    from Cons.IH [OF False, of T] step Tk show ?thesis
      by (simp add: k_def)
  qed
qed

lemma parseDuration_0s: "parseDuration ''0s'' = 0"
  by (simp add: parseDuration_def is_digit_def parseInt10_def)

lemma parseDuration_30m: "parseDuration ''30m'' = 1800000"
  by (simp add: parseDuration_def is_digit_def parseInt10_def)

lemma trackers_after_first_eq:
  "trackers_after_first = [''app-1:ci-failed'' \<mapsto> \<lparr> rt_attempts = 1, rt_firstTriggered = 0 \<rparr>]"
  by (simp add: trackers_after_first_def executeReaction_tracker bumped_tracker_def)




lemma approval_approved: "APPROVAL_PATTERN_test ''approved''"
  by code_simp

lemma verify_ok:
  "verifySignature (hmac_sha256_hex (webhookEnv b)) approvedCommentBody
     (rq_signature approvedCommentRequest) ''test-secret'' ''sha256='' = Inr True"
  unfolding webhookEnv_def approvedCommentRequest_def by simp code_simp

lemma normalize_comment:
  "normalizeGitHubEvent ''issue_comment'' (Some ''created'') ''delivery-123'' approvedCommentPayload
     = Some approvedCommentEvent"
  by (simp add: normalizeGitHubEvent_def approvedCommentPayload_def approvedCommentEvent_def
        issue_of_def makeIssue_def String_of_number_42)

lemma gated_ok: "isGatedSessionFor approvedCommentEvent gatedSession"
  by (simp add: isGatedSessionFor_def approvedCommentEvent_def gatedSession_def
        existingSession_def makeIssue_def)


lemma handleIssueComment_resume:
  assumes "e_commentBody event = Some body" "body \<noteq> []" "APPROVAL_PATTERN_test body"
    and "find (isGatedSessionFor event) (w_store w) = Some g"
  shows "handleIssueComment env event config reg w =
           (if \<not> send_ok env (s_id g) resume_message
            then (Skipped ''resume failed'',
                  w\<lparr> w_log := w_log w @ [Send (s_id g) resume_message] \<rparr>)
            else (Resumed (''resumed session '' @ s_id g),
                  w\<lparr> w_log := w_log w @ [Send (s_id g) resume_message]
                         @ (if tracker_can_comment reg (map_of (c_projects config) (s_projectId g))
                            then [UpdateIssue (i_id (e_issue event))
                                    (confirmation_comment (s_id g)) (s_projectId g)]
                            else []),
                     w_store := (if map_of (c_projects config) (s_projectId g) = None
                                 then w_store w
                                 else updateMetadata (s_projectId g) (s_id g) ''prpPhase''
                                        ''implementing'' (w_store w)) \<rparr>))"
  using assms
  by (auto simp: handleIssueComment_def truthy_def sm_list_def Let_def split: option.splits)

lemma handleIssueComment_skip:
  assumes "\<not> (\<exists>body. e_commentBody event = Some body \<and> body \<noteq> [] \<and> APPROVAL_PATTERN_test body)
           \<or> find (isGatedSessionFor event) (w_store w) = None"
  shows "snd (handleIssueComment env event config reg w) = w"
    and "\<exists>why. fst (handleIssueComment env event config reg w) = Skipped why"
  using assms
  by (auto simp: handleIssueComment_def truthy_def sm_list_def Let_def split: option.splits)

lemma POST_issue_comment:
  assumes "JSON_parse env (rq_body req) = Some (Parsed_object payload)"
    and "pl_repository_full_name payload = Some (Some repo)" "repo \<noteq> []"
    and "findSecret repo (c_projects config) = Some secret" "secret \<noteq> []"
    and "verifySignature (hmac_sha256_hex env) (rq_body req) (rq_signature req) secret
           ''sha256='' = Inr True"
    and "normalizeGitHubEvent (case rq_github_event req of None \<Rightarrow> [] | Some e \<Rightarrow> e)
           (pl_action payload) (case rq_github_delivery req of None \<Rightarrow> [] | Some d \<Rightarrow> d)
           payload = Some event"
    and "e_event event = Issue_comment"
  shows "POST env config reg req w =
           (Inr (Response 200 (fst (handleIssueComment env event config reg w))),
            snd (handleIssueComment env event config reg w))"
  using assms
  by (simp add: POST_def truthy_def Let_def split: prod.splits)

lemma not_gated_after_update:
  "\<not> isGatedSessionFor event
       (s\<lparr> s_metadata := (s_metadata s)(''prpPhase'' \<mapsto> ''implementing'') \<rparr>)"
  by (simp add: isGatedSessionFor_def Let_def split: option.splits)

lemma no_gated_after_update:
  assumes "\<forall>s\<in>set store. isGatedSessionFor event s
             \<longrightarrow> s_id s = sid \<and> s_projectId s = pid"
  shows "find (isGatedSessionFor event)
           (updateMetadata pid sid ''prpPhase'' ''implementing'' store) = None"
  using assms
  by (auto simp: find_None_iff updateMetadata_def not_gated_after_update)

lemma isGatedSessionFor_same_issue:
  "i_url (e_issue event') = i_url (e_issue event) \<Longrightarrow> i_id (e_issue event') = i_id (e_issue event)
   \<Longrightarrow> isGatedSessionFor event' = isGatedSessionFor event"
  by (auto simp: isGatedSessionFor_def fun_eq_iff Let_def split: option.splits)

lemma approval_lgtm: "APPROVAL_PATTERN_test ''lgtm''"
  by code_simp

lemma verifySignature_missing:
  "signature = None \<or> signature = Some [] \<Longrightarrow> verifySignature hmac body signature secret pfx = Inr False"
  by (auto simp: verifySignature_def)

lemma verify_wrong:
  "verifySignature (hmac_sha256_hex (webhookEnv b)) approvedCommentBody
     (rq_signature wrongSignatureRequest) ''test-secret'' ''sha256='' = Inr False"
  unfolding webhookEnv_def wrongSignatureRequest_def approvedCommentRequest_def by simp code_simp

lemma verify_non_hex:
  "verifySignature (hmac_sha256_hex (webhookEnv b)) approvedCommentBody
     (rq_signature nonHexSignatureRequest) ''test-secret'' ''sha256='' = Inl RangeError"
  unfolding webhookEnv_def nonHexSignatureRequest_def approvedCommentRequest_def by simp code_simp

lemma POST_non_hex_signature_throws:
  "fst (POST (webhookEnv True) makeConfig allPlugins nonHexSignatureRequest gatedWorld)
     = Inl RangeError"
proof -
  have "rq_body nonHexSignatureRequest = approvedCommentBody"
    by (simp add: nonHexSignatureRequest_def approvedCommentRequest_def)
  with verify_non_hex [of True] show ?thesis
    by (simp add: POST_def webhookEnv_def approvedCommentPayload_def makeConfig_def
          makeProject_def truthy_def)
qed

subsection \<open>The reaction tracker across status transitions\<close>

text \<open>
  \<open>checkSession\<close> deletes the tracker of the status that a session leaves. A session that
  enters \<open>ci_failed\<close> again has left it in between, so the \<open>ci-failed\<close> reaction then
  starts from a fresh tracker.
\<close>

lemma reaction_key_ci_failed:
  "statusToEventType st = Some t \<Longrightarrow> eventToReactionKey t = Some ''ci-failed''
   \<Longrightarrow> st = ''ci_failed''"
  by (auto simp: statusToEventType_def eventToReactionKey_def split: if_splits)

lemma clearOldReaction_ci_failed:
  "lm_reactionTrackers (clearOldReaction sid ''ci_failed'' lm) (sid @ '':'' @ ''ci-failed'')
   = None"
  by (simp add: clearOldReaction_def statusToEventType_def eventToReactionKey_def)

lemma executeReaction_other_key:
  "k \<noteq> sid @ '':'' @ key
   \<Longrightarrow> reaction_trackers (executeReaction now ok config reg trackers sid pid key rc) k
       = trackers k"
  by (simp add: executeReaction_tracker)

lemma handleTransition_keeps_ci_failed:
  assumes "statusToEventType st = Some t" "st \<noteq> ''ci_failed''"
  shows "lm_reactionTrackers
           (fst (handleTransition env config reg session old new t (lm, w)))
           (s_id session @ '':'' @ ''ci-failed'')
         = lm_reactionTrackers lm (s_id session @ '':'' @ ''ci-failed'')"
proof (cases "reactionFor config (map_of (c_projects config) (s_projectId session)) t")
  case None
  then show ?thesis by (simp add: handleTransition_def Let_def)
next
  case (Some kr)
  obtain k rc where kr: "kr = (k, rc)" by (cases kr)
  from Some kr have "eventToReactionKey t = Some k"
    by (auto simp: reactionFor_def split: option.splits if_splits)
  with assms reaction_key_ci_failed [of st t] have "k \<noteq> ''ci-failed''" by auto
  then have ne: "s_id session @ '':'' @ ''ci-failed'' \<noteq> s_id session @ '':'' @ k" by simp
  from executeReaction_other_key [OF ne, of "le_clock env" "le_send_ok env" config reg
         "lm_reactionTrackers lm" "s_projectId session" rc] Some kr
  show ?thesis
    by (cases "executeReaction (le_clock env) (le_send_ok env) config reg
         (lm_reactionTrackers lm) (s_id session) (s_projectId session) k rc")
       (simp add: handleTransition_def reaction_trackers_def)
qed

lemma leaving_ci_failed_clears_tracker:
  assumes "oldStatusOf lm session = ''ci_failed''"
    and "determineStatus config reg (le_probes env) session \<noteq> Ci_failed"
  shows "lm_reactionTrackers (fst (checkSession_status env config reg session (lm, w)))
           (s_id session @ '':'' @ ''ci-failed'') = None"
proof -
  define newStatus where "newStatus = determineStatus config reg (le_probes env) session"
  have ne: "status_name newStatus \<noteq> ''ci_failed''"
    using assms(2) by (cases newStatus) (simp_all add: newStatus_def)
  show ?thesis
  proof (cases "statusToEventType (status_name newStatus)")
    case None
    with ne assms(1) show ?thesis
      by (simp add: checkSession_status_def Let_def newStatus_def [symmetric]
            clearOldReaction_def statusToEventType_def eventToReactionKey_def)
  next
    case (Some t)
    from handleTransition_keeps_ci_failed [OF Some ne] Some ne assms(1)
    show ?thesis
      by (simp add: checkSession_status_def Let_def newStatus_def [symmetric]
            clearOldReaction_ci_failed [simplified])
  qed
qed

subsection \<open>Shared lemmas on the plan gate\<close>






lemma join_lines_Cons: "join_lines (l # m # ls) = l @ newline @ join_lines (m # ls)"
  by simp





































subsection \<open>Trigger engine\<close>



text \<open>
  Counterexample to claim C8 as stated: a rule \<open>{on: issue.opened, label: "bug"}\<close>
  carries a label filter, the \<open>issue.opened\<close> event has no label, and the rule matches
  all the same, because \<open>ruleMatches\<close> reads the label only of an \<open>issue.labeled\<close> rule.
\<close>

theorem ruleMatches_ignores_label_counterexample:
  "ruleMatches openedRuleWithLabel openedEvent
   \<and> \<not> spec_ruleMatches openedRuleWithLabel openedEvent"
  by (simp add: ruleMatches_def spec_ruleMatches_def openedRuleWithLabel_def openedEvent_def
        makeEvent_def truthy_def)

text \<open>
  Claim C8, amended. A rule matches iff \<open>rule.on\<close> equals \<open>event.event\<close> and, for an
  \<open>issue.labeled\<close> rule with a non-empty label, the event's label equals it, and, for an
  \<open>issue.assigned\<close> rule with a non-empty assignee, the event's assignee equals it; on
  rules of any other event type the filters are not read. Among a project's rules the
  first match in declared order is the decision's \<open>matchedRule\<close>.
\<close>

theorem ruleMatches_first_match_wins:
  "(ruleMatches rule event \<longleftrightarrow>
      r_on rule = e_event event
      \<and> (r_on rule = Issue_labeled \<and> truthy (r_label rule) \<longrightarrow> e_label event = r_label rule)
      \<and> (r_on rule = Issue_assigned \<and> truthy (r_assignee rule)
            \<longrightarrow> e_assignee event = r_assignee rule))
   \<and> (\<forall>d project. fst (evaluateTriggers now event config list seen) = Some d
          \<and> map_of (c_projects config) (d_projectId d) = Some project
        \<longrightarrow> (\<exists>triggers i. p_triggers project = Some triggers \<and> i < length triggers
               \<and> d_matchedRule d = triggers ! i \<and> ruleMatches (triggers ! i) event
               \<and> (\<forall>j<i. \<not> ruleMatches (triggers ! j) event)))"
proof (intro conjI allI impI)
  show "ruleMatches rule event \<longleftrightarrow>
      r_on rule = e_event event
      \<and> (r_on rule = Issue_labeled \<and> truthy (r_label rule) \<longrightarrow> e_label event = r_label rule)
      \<and> (r_on rule = Issue_assigned \<and> truthy (r_assignee rule)
            \<longrightarrow> e_assignee event = r_assignee rule)"
    by (auto simp: ruleMatches_def)
next
  fix d project
  assume a: "fst (evaluateTriggers now event config list seen) = Some d
          \<and> map_of (c_projects config) (d_projectId d) = Some project"
  then have f: "find (\<lambda>rule. ruleMatches rule event)
                  (case p_triggers project of None \<Rightarrow> [] | Some ts \<Rightarrow> ts)
                = Some (d_matchedRule d)"
    by (auto simp: evaluateTriggers_def Let_def
          split: prod.splits option.splits bool.splits if_splits)
  then obtain triggers where t: "p_triggers project = Some triggers"
    by (cases "p_triggers project") auto
  from f t have "find (\<lambda>rule. ruleMatches rule event) triggers = Some (d_matchedRule d)"
    by simp
  then obtain i where "i < length triggers" "ruleMatches (triggers ! i) event"
      "d_matchedRule d = triggers ! i" "\<forall>j<i. \<not> ruleMatches (triggers ! j) event"
    unfolding find_Some_iff by blast
  with t show "\<exists>triggers i. p_triggers project = Some triggers \<and> i < length triggers
               \<and> d_matchedRule d = triggers ! i \<and> ruleMatches (triggers ! i) event
               \<and> (\<forall>j<i. \<not> ruleMatches (triggers ! j) event)"
    by blast
qed

text \<open>
  Witness for C8: the label rule of the test suite matches its event, a rule with
  another label does not, and of three rules, two of which match, the earlier one is
  the matched rule.
\<close>

theorem ruleMatches_first_match_wins_witness:
  "ruleMatches \<lparr> r_on = Issue_labeled, r_label = Some ''agent-work'', r_assignee = None \<rparr>
     makeEvent
   \<and> \<not> ruleMatches \<lparr> r_on = Issue_labeled, r_label = Some ''bug'', r_assignee = None \<rparr>
         makeEvent
   \<and> d_matchedRule (the (fst (evaluateTriggers 0 makeEvent threeRuleConfig (\<lambda>p. []) Map.empty)))
       = \<lparr> r_on = Issue_labeled, r_label = Some ''agent-work'', r_assignee = None \<rparr>"
proof -
  have d: "fst (evaluateTriggers 0 makeEvent threeRuleConfig (\<lambda>p. []) Map.empty)
       = Some \<lparr> d_projectId = ''my-app'', d_issueId = ''42'', d_event = makeEvent,
                 d_matchedRule = \<lparr> r_on = Issue_labeled, r_label = Some ''agent-work'',
                                   r_assignee = None \<rparr> \<rparr>"
    by (simp add: trigger_defs fixture_defs String_of_number_42 threeRuleConfig_def
          threeRuleProject_def)
  have m: "map_of (c_projects threeRuleConfig) ''my-app'' = Some threeRuleProject"
    by (simp add: threeRuleConfig_def)
  from d m
    ruleMatches_first_match_wins
      [of "\<lparr> r_on = Issue_labeled, r_label = Some ''agent-work'', r_assignee = None \<rparr>"
          makeEvent 0 threeRuleConfig "\<lambda>p. []" Map.empty]
    ruleMatches_first_match_wins
      [of "\<lparr> r_on = Issue_labeled, r_label = Some ''bug'', r_assignee = None \<rparr>"
          makeEvent 0 threeRuleConfig "\<lambda>p. []" Map.empty]
  show ?thesis by (simp add: makeEvent_def truthy_def)
qed

text \<open>
  Counterexample to claim dedup_window_from_recorded_sighting as stated: the same delivery id is evaluated at minute 0,
  at minute 9 and at minute 18. The second call is rejected as a duplicate; the third
  call comes within ten minutes of the second and still returns a spawn decision,
  because a duplicate hit does not refresh the recorded time and minute 0 has expired.
\<close>

theorem dedup_window_not_refreshed_counterexample:
  "fst (evaluateTriggers 540000 makeEvent makeConfig (\<lambda>p. []) seen_after_first) = None
   \<and> (1080000::int) - 540000 \<le> DELIVERY_TTL_MS
   \<and> fst (evaluateTriggers 1080000 makeEvent makeConfig (\<lambda>p. []) seen_after_second) \<noteq> None"
proof -
  have a: "fst (evaluateTriggers 540000 makeEvent makeConfig (\<lambda>p. []) seen_after_first) = None"
    by (simp add: seen_after_first_eq evaluateTriggers_def isDuplicate_def pruneDeliveries_def
          makeEvent_def DELIVERY_TTL_MS_def)
  have "\<not> fst (isDuplicate 1080000 (e_deliveryId makeEvent) seen_after_second)"
    by (simp add: seen_after_second_eq isDuplicate_def pruneDeliveries_def makeEvent_def
          DELIVERY_TTL_MS_def)
  then have "fst (evaluateTriggers 1080000 makeEvent makeConfig (\<lambda>p. []) seen_after_second)
               = fst (evaluateTriggers 1080000 makeEvent makeConfig (\<lambda>p. []) Map.empty)"
    by (rule evaluateTriggers_fresh)
  also have "\<dots> \<noteq> None"
    by (simp add: trigger_defs fixture_defs String_of_number_42)
  finally show ?thesis using a by (simp add: DELIVERY_TTL_MS_def)
qed

text \<open>
  Claim dedup_window_from_recorded_sighting, amended. A call returns null whenever the delivery id has a recorded time at
  most ten minutes old, and the recorded time stays as it was; a delivery id with no
  recorded time, or with one older than ten minutes, is treated as new: the call decides
  as on an empty map and records the current time. The recorded time is that of the
  last call that was not itself rejected as a duplicate; so a second call with the same
  delivery id within ten minutes of such a call returns null, whatever that call returned
  and whatever event, configuration and sessions the second call is given.
\<close>

theorem dedup_window_from_recorded_sighting:
  "(\<forall>ts. seen (e_deliveryId event) = Some ts \<and> now - ts \<le> DELIVERY_TTL_MS
      \<longrightarrow> fst (evaluateTriggers now event config list seen) = None
          \<and> snd (evaluateTriggers now event config list seen) (e_deliveryId event) = Some ts)
   \<and> (seen (e_deliveryId event) = None
        \<or> (\<exists>ts. seen (e_deliveryId event) = Some ts \<and> now - ts > DELIVERY_TTL_MS)
      \<longrightarrow> fst (evaluateTriggers now event config list seen)
            = fst (evaluateTriggers now event config list Map.empty)
          \<and> snd (evaluateTriggers now event config list seen) (e_deliveryId event) = Some now)
   \<and> (\<forall>now' event' config' list'.
        \<not> fst (isDuplicate now (e_deliveryId event) seen)
        \<and> e_deliveryId event' = e_deliveryId event \<and> now' - now \<le> DELIVERY_TTL_MS
      \<longrightarrow> fst (evaluateTriggers now' event' config' list'
                 (snd (evaluateTriggers now event config list seen))) = None)"
proof (intro conjI allI impI)
  fix ts
  assume a: "seen (e_deliveryId event) = Some ts \<and> now - ts \<le> DELIVERY_TTL_MS"
  then have d: "fst (isDuplicate now (e_deliveryId event) seen)"
    by (simp add: isDuplicate_def pruneDeliveries_def)
  from evaluateTriggers_duplicate [OF d] a
  show "fst (evaluateTriggers now event config list seen) = None"
    and "snd (evaluateTriggers now event config list seen) (e_deliveryId event) = Some ts"
    by (simp_all add: pruneDeliveries_def)
next
  assume a: "seen (e_deliveryId event) = None
        \<or> (\<exists>ts. seen (e_deliveryId event) = Some ts \<and> now - ts > DELIVERY_TTL_MS)"
  then have d: "\<not> fst (isDuplicate now (e_deliveryId event) seen)"
    by (auto simp: isDuplicate_def pruneDeliveries_def)
  then show "fst (evaluateTriggers now event config list seen)
            = fst (evaluateTriggers now event config list Map.empty)"
    by (rule evaluateTriggers_fresh)
  from d show "snd (evaluateTriggers now event config list seen) (e_deliveryId event) = Some now"
    by (auto simp: evaluateTriggers_snd isDuplicate_def Let_def split: if_splits)
next
  fix now' :: int and event' :: tracker_event and config' :: orchestrator_config
    and list' :: "string \<Rightarrow> session list"
  assume a: "\<not> fst (isDuplicate now (e_deliveryId event) seen)
        \<and> e_deliveryId event' = e_deliveryId event \<and> now' - now \<le> DELIVERY_TTL_MS"
  then have "snd (evaluateTriggers now event config list seen) (e_deliveryId event') = Some now"
    by (auto simp: evaluateTriggers_snd isDuplicate_def Let_def split: if_splits)
  with a have "fst (isDuplicate now' (e_deliveryId event')
                      (snd (evaluateTriggers now event config list seen)))"
    by (simp add: isDuplicate_def pruneDeliveries_def)
  from evaluateTriggers_duplicate [OF this]
  show "fst (evaluateTriggers now' event' config' list'
                 (snd (evaluateTriggers now event config list seen))) = None"
    by simp
qed

text \<open>
  Witness for dedup_window_from_recorded_sighting: in the history above, the call at minute 9 is rejected with the
  recorded time 0 kept, the call at minute 18 records its own time, and a call at
  minute 10 after a first call at minute 0 is rejected.
\<close>

theorem dedup_window_from_recorded_sighting_witness:
  "seen_after_first (e_deliveryId makeEvent) = Some 0 \<and> (540000::int) - 0 \<le> DELIVERY_TTL_MS
   \<and> fst (evaluateTriggers 540000 makeEvent makeConfig (\<lambda>p. []) seen_after_first) = None
   \<and> (\<exists>ts. seen_after_second (e_deliveryId makeEvent) = Some ts
            \<and> 1080000 - ts > DELIVERY_TTL_MS)
   \<and> snd (evaluateTriggers 1080000 makeEvent makeConfig (\<lambda>p. []) seen_after_second)
        (e_deliveryId makeEvent) = Some 1080000
   \<and> \<not> fst (isDuplicate 0 (e_deliveryId makeEvent) Map.empty)
   \<and> fst (evaluateTriggers 600000 openedEvent threeRuleConfig (\<lambda>p. [existingSession])
             (snd (evaluateTriggers 0 makeEvent makeConfig (\<lambda>p. []) Map.empty))) = None"
proof -
  have a: "seen_after_first (e_deliveryId makeEvent) = Some 0 \<and> (540000::int) - 0 \<le> DELIVERY_TTL_MS"
    by (simp add: seen_after_first_eq makeEvent_def DELIVERY_TTL_MS_def)
  have b: "\<exists>ts. seen_after_second (e_deliveryId makeEvent) = Some ts
            \<and> 1080000 - ts > DELIVERY_TTL_MS"
    by (simp add: seen_after_second_eq makeEvent_def DELIVERY_TTL_MS_def)
  have c: "\<not> fst (isDuplicate 0 (e_deliveryId makeEvent) Map.empty)
           \<and> e_deliveryId openedEvent = e_deliveryId makeEvent
           \<and> (600000::int) - 0 \<le> DELIVERY_TTL_MS"
    by (simp add: isDuplicate_def pruneDeliveries_def openedEvent_def DELIVERY_TTL_MS_def)
  from a b c
    dedup_window_from_recorded_sighting [of seen_after_first makeEvent 540000 makeConfig "\<lambda>p. []"]
    dedup_window_from_recorded_sighting [of seen_after_second makeEvent 1080000 makeConfig "\<lambda>p. []"]
    dedup_window_from_recorded_sighting [of Map.empty makeEvent 0 makeConfig "\<lambda>p. []"]
  show ?thesis by blast
qed

subsection \<open>Reaction engine\<close>

text \<open>
  Counterexample to claim executeReaction_attempts_and_escalation as stated: with \<open>escalateAfter: "0s"\<close> and \<open>retries: 5\<close>, the
  second invocation comes five seconds after the first. The elapsed time exceeds the
  parsed duration 0, so the stated condition holds, yet the invocation does not escalate
  and sends the message: \<open>executeReaction\<close> reads a parsed duration only when it is
  positive.
\<close>

theorem zero_duration_never_escalates_counterexample:
  "trackers_after_first ''app-1:ci-failed'' = Some \<lparr> rt_attempts = 1, rt_firstTriggered = 0 \<rparr>
   \<and> spec_shouldEscalate 5000 zeroDurationReaction \<lparr> rt_attempts = 2, rt_firstTriggered = 0 \<rparr>
   \<and> \<not> rr_escalated (reaction_outcome
          (executeReaction 5000 True makeConfig allPlugins trackers_after_first
             ''app-1'' ''my-app'' ''ci-failed'' zeroDurationReaction))
   \<and> reaction_effects
          (executeReaction 5000 True makeConfig allPlugins trackers_after_first
             ''app-1'' ''my-app'' ''ci-failed'' zeroDurationReaction)
       = [Send ''app-1'' ''CI failed'']"
proof -
  have n: "\<not> shouldEscalate 5000 zeroDurationReaction
              (bumped_tracker 5000 trackers_after_first (''app-1'' @ '':'' @ ''ci-failed''))"
    by (simp add: shouldEscalate_def zeroDurationReaction_def parseDuration_0s
          trackers_after_first_eq bumped_tracker_def)
  have s: "spec_shouldEscalate 5000 zeroDurationReaction
             \<lparr> rt_attempts = 2, rt_firstTriggered = 0 \<rparr>"
    by (simp add: spec_shouldEscalate_def zeroDurationReaction_def parseDuration_0s
          is_duration_string_def is_digit_def)
  from n s executeReaction_effects_send [OF n, of "''CI failed''" True makeConfig allPlugins "''my-app''"]
  show ?thesis
    by (simp add: executeReaction_escalated trackers_after_first_eq zeroDurationReaction_def)
qed

text \<open>
  Claim executeReaction_attempts_and_escalation, amended. Each invocation of \<open>executeReaction\<close> for a fixed session and
  reaction key leaves the tracked attempts one higher (1 on the first invocation) and
  keeps \<open>firstTriggered\<close>, so that a sequence of invocations adds its length. An
  invocation escalates iff attempts exceed \<open>retries\<close>, or \<open>escalateAfter\<close> is a string whose
  parsed duration is positive and the time since \<open>firstTriggered\<close> exceeds it, or
  \<open>escalateAfter\<close> is a number and attempts exceed it. An escalating invocation notifies
  with the \<open>reaction.escalated\<close> event and nothing else; any other invocation emits no
  \<open>reaction.escalated\<close> event.
\<close>

theorem executeReaction_attempts_and_escalation:
  "reaction_trackers (executeReaction now sendOk config reg trackers sid pid key rc)
       (sid @ '':'' @ key)
     = Some \<lparr> rt_attempts = (case trackers (sid @ '':'' @ key) of None \<Rightarrow> 1
                               | Some t \<Rightarrow> rt_attempts t + 1),
               rt_firstTriggered = (case trackers (sid @ '':'' @ key) of None \<Rightarrow> now
                                    | Some t \<Rightarrow> rt_firstTriggered t) \<rparr>
   \<and> (calls \<noteq> [] \<longrightarrow>
        map_option rt_attempts
          (run_reactions config reg sid pid key rc calls trackers (sid @ '':'' @ key))
        = Some ((case trackers (sid @ '':'' @ key) of None \<Rightarrow> 0 | Some t \<Rightarrow> rt_attempts t)
                + length calls))
   \<and> (rr_escalated
         (reaction_outcome (executeReaction now sendOk config reg trackers sid pid key rc))
       \<longleftrightarrow>
         (\<exists>retries. rc_retries rc = Some retries
            \<and> int (case trackers (sid @ '':'' @ key) of None \<Rightarrow> 1
                    | Some t \<Rightarrow> rt_attempts t + 1) > retries)
         \<or> (\<exists>str. rc_escalateAfter rc = Some (Escalate_duration str) \<and> parseDuration str > 0
               \<and> now - (case trackers (sid @ '':'' @ key) of None \<Rightarrow> now
                         | Some t \<Rightarrow> rt_firstTriggered t) > parseDuration str)
         \<or> (\<exists>n. rc_escalateAfter rc = Some (Escalate_count n)
               \<and> int (case trackers (sid @ '':'' @ key) of None \<Rightarrow> 1
                       | Some t \<Rightarrow> rt_attempts t + 1) > n))
   \<and> (if rr_escalated
            (reaction_outcome (executeReaction now sendOk config reg trackers sid pid key rc))
       then reaction_effects (executeReaction now sendOk config reg trackers sid pid key rc)
            = notifyHuman config reg
                (escalated_event sid pid key
                   (case trackers (sid @ '':'' @ key) of None \<Rightarrow> 1 | Some t \<Rightarrow> rt_attempts t + 1))
                (case rc_priority rc of None \<Rightarrow> Urgent | Some p \<Rightarrow> p)
       else list_all (\<lambda>e. case e of NotifyCall name ev \<Rightarrow> ev_type ev \<noteq> ''reaction.escalated''
                                  | _ \<Rightarrow> True)
              (reaction_effects
                 (executeReaction now sendOk config reg trackers sid pid key rc)))"
proof (intro conjI)
  show "reaction_trackers (executeReaction now sendOk config reg trackers sid pid key rc)
       (sid @ '':'' @ key)
     = Some \<lparr> rt_attempts = (case trackers (sid @ '':'' @ key) of None \<Rightarrow> 1
                               | Some t \<Rightarrow> rt_attempts t + 1),
               rt_firstTriggered = (case trackers (sid @ '':'' @ key) of None \<Rightarrow> now
                                    | Some t \<Rightarrow> rt_firstTriggered t) \<rparr>"
    by (simp add: executeReaction_tracker bumped_tracker_def split: option.splits)
  show "calls \<noteq> [] \<longrightarrow>
        map_option rt_attempts
          (run_reactions config reg sid pid key rc calls trackers (sid @ '':'' @ key))
        = Some ((case trackers (sid @ '':'' @ key) of None \<Rightarrow> 0 | Some t \<Rightarrow> rt_attempts t)
                + length calls)"
    using run_reactions_attempts by blast
  show "rr_escalated
         (reaction_outcome (executeReaction now sendOk config reg trackers sid pid key rc))
       \<longleftrightarrow>
         (\<exists>retries. rc_retries rc = Some retries
            \<and> int (case trackers (sid @ '':'' @ key) of None \<Rightarrow> 1
                    | Some t \<Rightarrow> rt_attempts t + 1) > retries)
         \<or> (\<exists>str. rc_escalateAfter rc = Some (Escalate_duration str) \<and> parseDuration str > 0
               \<and> now - (case trackers (sid @ '':'' @ key) of None \<Rightarrow> now
                         | Some t \<Rightarrow> rt_firstTriggered t) > parseDuration str)
         \<or> (\<exists>n. rc_escalateAfter rc = Some (Escalate_count n)
               \<and> int (case trackers (sid @ '':'' @ key) of None \<Rightarrow> 1
                       | Some t \<Rightarrow> rt_attempts t + 1) > n)"
    unfolding executeReaction_escalated
    by (auto simp: shouldEscalate_def bumped_tracker_def Let_def
          split: option.splits escalate_after.splits)
  show "if rr_escalated
            (reaction_outcome (executeReaction now sendOk config reg trackers sid pid key rc))
       then reaction_effects (executeReaction now sendOk config reg trackers sid pid key rc)
            = notifyHuman config reg
                (escalated_event sid pid key
                   (case trackers (sid @ '':'' @ key) of None \<Rightarrow> 1 | Some t \<Rightarrow> rt_attempts t + 1))
                (case rc_priority rc of None \<Rightarrow> Urgent | Some p \<Rightarrow> p)
       else list_all (\<lambda>e. case e of NotifyCall name ev \<Rightarrow> ev_type ev \<noteq> ''reaction.escalated''
                                  | _ \<Rightarrow> True)
              (reaction_effects
                 (executeReaction now sendOk config reg trackers sid pid key rc))"
  proof (cases "shouldEscalate now rc (bumped_tracker now trackers (sid @ '':'' @ key))")
    case True
    from executeReaction_effects_escalated [OF True] True show ?thesis
      by (simp add: executeReaction_escalated bumped_tracker_def split: option.splits)
  next
    case False
    have "list_all (\<lambda>e. case e of NotifyCall name ev \<Rightarrow> ev_type ev \<noteq> ''reaction.escalated''
                                  | _ \<Rightarrow> True)
              (reaction_effects
                 (executeReaction now sendOk config reg trackers sid pid key rc))"
      unfolding list_all_iff
    proof
      fix e
      assume "e \<in> set (reaction_effects
                 (executeReaction now sendOk config reg trackers sid pid key rc))"
      from executeReaction_effects_not_escalated [OF False this]
      show "case e of NotifyCall name ev \<Rightarrow> ev_type ev \<noteq> ''reaction.escalated'' | _ \<Rightarrow> True"
        by auto
    qed
    with False show ?thesis by (simp add: executeReaction_escalated)
  qed
qed

text \<open>
  Witness for executeReaction_attempts_and_escalation: after one invocation of the \<open>ci-failed\<close> reaction at time 0, a second
  one five seconds later has attempts 2 and does not escalate, one after more than thirty
  minutes escalates, and three invocations in a row leave attempts 3.
\<close>

theorem executeReaction_attempts_and_escalation_witness:
  "reaction_trackers
     (executeReaction 5000 True makeConfig allPlugins trackers_after_first
        ''app-1'' ''my-app'' ''ci-failed'' ciFailedReaction) ''app-1:ci-failed''
     = Some \<lparr> rt_attempts = 2, rt_firstTriggered = 0 \<rparr>
   \<and> map_option rt_attempts
        (run_reactions makeConfig allPlugins ''app-1'' ''my-app'' ''ci-failed'' ciFailedReaction
           [(0, True), (10, False), (20, True)] Map.empty ''app-1:ci-failed'') = Some 3
   \<and> \<not> rr_escalated (reaction_outcome
          (executeReaction 5000 True makeConfig allPlugins trackers_after_first
             ''app-1'' ''my-app'' ''ci-failed'' ciFailedReaction))
   \<and> rr_escalated (reaction_outcome
          (executeReaction 1800001 True makeConfig allPlugins trackers_after_first
             ''app-1'' ''my-app'' ''ci-failed'' ciFailedReaction))"
proof -
  note early = executeReaction_attempts_and_escalation [of 5000 True makeConfig allPlugins trackers_after_first "''app-1''"
                      "''my-app''" "''ci-failed''" ciFailedReaction "[(0, True)]"]
  note late = executeReaction_attempts_and_escalation [of 1800001 True makeConfig allPlugins trackers_after_first "''app-1''"
                     "''my-app''" "''ci-failed''" ciFailedReaction "[(0, True)]"]
  note three = executeReaction_attempts_and_escalation [of 0 True makeConfig allPlugins Map.empty "''app-1''" "''my-app''"
                      "''ci-failed''" ciFailedReaction "[(0, True), (10, False), (20, True)]"]
  have a: "reaction_trackers
     (executeReaction 5000 True makeConfig allPlugins trackers_after_first
        ''app-1'' ''my-app'' ''ci-failed'' ciFailedReaction) ''app-1:ci-failed''
     = Some \<lparr> rt_attempts = 2, rt_firstTriggered = 0 \<rparr>"
    using early [THEN conjunct1] by (simp add: trackers_after_first_eq)
  have b: "map_option rt_attempts
        (run_reactions makeConfig allPlugins ''app-1'' ''my-app'' ''ci-failed'' ciFailedReaction
           [(0, True), (10, False), (20, True)] Map.empty ''app-1:ci-failed'') = Some 3"
    using three [THEN conjunct2, THEN conjunct1] by (simp add: numeral_3_eq_3)
  have c: "\<not> rr_escalated (reaction_outcome
          (executeReaction 5000 True makeConfig allPlugins trackers_after_first
             ''app-1'' ''my-app'' ''ci-failed'' ciFailedReaction))"
    unfolding early [THEN conjunct2, THEN conjunct2, THEN conjunct1]
    by (simp add: trackers_after_first_eq ciFailedReaction_def parseDuration_30m)
  have d: "rr_escalated (reaction_outcome
          (executeReaction 1800001 True makeConfig allPlugins trackers_after_first
             ''app-1'' ''my-app'' ''ci-failed'' ciFailedReaction))"
    unfolding late [THEN conjunct2, THEN conjunct2, THEN conjunct1]
    by (simp add: trackers_after_first_eq ciFailedReaction_def parseDuration_30m)
  from a b c d show ?thesis by blast
qed




subsection \<open>Status derivation\<close>

text \<open>
  Counterexample to claim determineStatus_pr_outcomes as stated: for a session with a pull request that the SCM
  reports closed, \<open>determineStatus\<close> returns \<open>killed\<close>; the outcome \<open>closed\<close> is not mapped
  to a status of the same name.
\<close>

theorem closed_pr_is_killed_counterexample:
  "status_name (determineStatus makeConfig allPlugins closedPrProbes sessionWithPr) = ''killed''
   \<and> status_name (determineStatus makeConfig allPlugins closedPrProbes sessionWithPr) \<noteq> ''closed''"
  by (simp add: determineStatus_def probe_pr_def probe_agent_def closedPrProbes_def quietProbes_def
        sessionWithPr_def fixture_defs allPlugins_def)

text \<open>
  Claim determineStatus_pr_outcomes, amended. When the session's project is configured with a registered SCM,
  the session has a pull request, the runtime and agent probes before it decide nothing,
  and the SCM probes succeed, \<open>determineStatus\<close> returns, in this order of precedence:
  \<open>merged\<close> for a merged pull request, \<open>killed\<close> for a closed one, \<open>ci_failed\<close> for failing CI,
  \<open>changes_requested\<close> for that review decision, \<open>mergeable\<close> or \<open>approved\<close> for an approved
  review according to mergeability, \<open>review_pending\<close> for a pending review, and \<open>pr_open\<close>
  otherwise.
\<close>

theorem determineStatus_pr_outcomes:
  assumes project: "map_of (c_projects config) (s_projectId session) = Some project"
    and pr: "s_pr session \<noteq> None"
    and scm: "p_scm project = Some scmName" "reg_scm reg scmName"
    and alive: "s_runtimeHandle session = None
                \<or> \<not> reg_runtime reg (case p_runtime project of
                                        None \<Rightarrow> c_default_runtime config | Some r \<Rightarrow> r)
                \<or> pb_isAlive pb \<noteq> Some False"
    and agent: "s_runtimeHandle session = None
                \<or> \<not> reg_agent reg (case p_agent project of
                                      None \<Rightarrow> c_default_agent config | Some a \<Rightarrow> a)
                \<or> probe_agent (reg_runtime reg (case p_runtime project of
                                   None \<Rightarrow> c_default_runtime config | Some r \<Rightarrow> r)) pb
                     = Fall_through
                \<or> (probe_agent (reg_runtime reg (case p_runtime project of
                                   None \<Rightarrow> c_default_runtime config | Some r \<Rightarrow> r)) pb
                     = Raised
                   \<and> s_status session \<noteq> Stuck \<and> s_status session \<noteq> Needs_input)"
    and probes: "probe_pr pb \<noteq> Raised"
  shows "determineStatus config reg pb session =
           (if pb_getPRState pb = Some PR_MERGED then Merged
            else if pb_getPRState pb = Some PR_CLOSED then Killed
            else if pb_getCISummary pb = Some CI_FAILING then Ci_failed
            else if pb_getReviewDecision pb = Some Review_changes_requested
                 then Changes_requested
            else if pb_getReviewDecision pb = Some Review_approved
                 then (if pb_getMergeability pb = Some True then Mergeable else Approved)
            else if pb_getReviewDecision pb = Some Review_pending_decision then Review_pending
            else Pr_open)"
proof -
  have ret: "probe_pr pb = Return
           (if pb_getPRState pb = Some PR_MERGED then Merged
            else if pb_getPRState pb = Some PR_CLOSED then Killed
            else if pb_getCISummary pb = Some CI_FAILING then Ci_failed
            else if pb_getReviewDecision pb = Some Review_changes_requested
                 then Changes_requested
            else if pb_getReviewDecision pb = Some Review_approved
                 then (if pb_getMergeability pb = Some True then Mergeable else Approved)
            else if pb_getReviewDecision pb = Some Review_pending_decision then Review_pending
            else Pr_open)"
    using probes by (auto simp: probe_pr_def split: option.splits if_splits)
  have a: "(\<not> (case pb_isAlive pb of None \<Rightarrow> True | Some alive \<Rightarrow> alive))
           \<longleftrightarrow> pb_isAlive pb = Some False"
    by (cases "pb_isAlive pb") auto
  define runtime where "runtime = reg_runtime reg (case p_runtime project of
                                        None \<Rightarrow> c_default_runtime config | Some r \<Rightarrow> r)"
  define agentFound where "agentFound = reg_agent reg (case p_agent project of
                                      None \<Rightarrow> c_default_agent config | Some a \<Rightarrow> a)"
  define target where "target =
           (if pb_getPRState pb = Some PR_MERGED then Merged
            else if pb_getPRState pb = Some PR_CLOSED then Killed
            else if pb_getCISummary pb = Some CI_FAILING then Ci_failed
            else if pb_getReviewDecision pb = Some Review_changes_requested
                 then Changes_requested
            else if pb_getReviewDecision pb = Some Review_approved
                 then (if pb_getMergeability pb = Some True then Mergeable else Approved)
            else if pb_getReviewDecision pb = Some Review_pending_decision then Review_pending
            else Pr_open)"
  have ret': "probe_pr pb = Return target"
    using ret by (simp add: target_def)
  have unfold: "determineStatus config reg pb session =
      (if s_runtimeHandle session \<noteq> None \<and> runtime \<and> pb_isAlive pb = Some False then Killed
       else if agentFound \<and> s_runtimeHandle session \<noteq> None then
         (case probe_agent runtime pb of
            Return st \<Rightarrow> st
          | Fall_through \<Rightarrow> target
          | Raised \<Rightarrow> if s_status session = Stuck \<or> s_status session = Needs_input
                      then s_status session else target)
       else target)"
    unfolding determineStatus_def Let_def runtime_def [symmetric] agentFound_def [symmetric]
    by (cases "probe_agent runtime pb")
       (auto simp: project pr scm ret' a runtime_def [symmetric] agentFound_def [symmetric])
  from alive have alive': "\<not> (s_runtimeHandle session \<noteq> None \<and> runtime
                              \<and> pb_isAlive pb = Some False)"
    by (auto simp: runtime_def)
  from agent have agent': "\<not> (agentFound \<and> s_runtimeHandle session \<noteq> None)
      \<or> probe_agent runtime pb = Fall_through
      \<or> (probe_agent runtime pb = Raised
         \<and> s_status session \<noteq> Stuck \<and> s_status session \<noteq> Needs_input)"
    by (auto simp: runtime_def agentFound_def)
  from alive' agent' have "determineStatus config reg pb session = target"
    unfolding unfold by auto
  then show ?thesis by (simp add: target_def)
qed

text \<open>
  Witness for determineStatus_pr_outcomes: the session \<open>app-1\<close> with a pull request, open, CI not failing, review
  approved, mergeable: the status is \<open>mergeable\<close>.
\<close>

theorem determineStatus_pr_outcomes_witness:
  "determineStatus makeConfig allPlugins approvedGreenProbes sessionWithPr = Mergeable"
proof -
  have "probe_pr approvedGreenProbes \<noteq> Raised"
    by (simp add: probe_pr_def approvedGreenProbes_def quietProbes_def)
  from determineStatus_pr_outcomes [of makeConfig sessionWithPr makeProject "''github''" allPlugins approvedGreenProbes, OF _ _ _ _ _ _ this]
  show ?thesis
    by (simp add: sessionWithPr_def fixture_defs allPlugins_def approvedGreenProbes_def
          quietProbes_def)
qed

subsection \<open>GitHub webhook\<close>

text \<open>
  Counterexample to claim POST_status_codes as stated: a request without a signature header whose body is
  not JSON is answered with 400, not 401: the route parses the body before it looks at
  the signature, since the repository named in the payload selects the secret.
\<close>

theorem json_parsed_before_signature_counterexample:
  "rq_signature notJsonRequest = None
   \<and> fst (POST (webhookEnv True) makeConfig allPlugins notJsonRequest gatedWorld)
       = Inr (Response 400 (Error_body ''Invalid JSON''))"
  by (simp add: POST_def notJsonRequest_def webhookEnv_def approvedCommentBody_def)

text \<open>
  Claim POST_status_codes, amended. The endpoint parses the JSON body first. A body that does not parse is
  answered with 400 whatever its signature, and 400 is answered only then. When the body
  parses and names a repository for which a project with a secret is configured, a
  request whose signature is missing or empty, or is rejected by \<open>verifySignature\<close>, is
  answered with 401, and 401 is answered only for a parsed body whose signature
  \<open>verifySignature\<close> rejected.
\<close>

theorem POST_status_codes:
  "(JSON_parse env (rq_body req) = None
      \<longrightarrow> POST env config reg req w = (Inr (Response 400 (Error_body ''Invalid JSON'')), w))
   \<and> (\<forall>payload repo secret.
        JSON_parse env (rq_body req) = Some (Parsed_object payload)
        \<and> pl_repository_full_name payload = Some (Some repo) \<and> repo \<noteq> []
        \<and> findSecret repo (c_projects config) = Some secret \<and> secret \<noteq> []
        \<and> (rq_signature req = None \<or> rq_signature req = Some []
            \<or> verifySignature (hmac_sha256_hex env) (rq_body req) (rq_signature req) secret
                 ''sha256='' = Inr False)
      \<longrightarrow> POST env config reg req w
            = (Inr (Response 401 (Error_body ''Invalid signature'')), w))
   \<and> (\<forall>b. fst (POST env config reg req w) = Inr (Response 400 b)
        \<longrightarrow> JSON_parse env (rq_body req) = None)
   \<and> (\<forall>b. fst (POST env config reg req w) = Inr (Response 401 b)
        \<longrightarrow> (\<exists>payload repo secret.
               JSON_parse env (rq_body req) = Some (Parsed_object payload)
               \<and> pl_repository_full_name payload = Some (Some repo) \<and> repo \<noteq> []
               \<and> findSecret repo (c_projects config) = Some secret \<and> secret \<noteq> []
               \<and> verifySignature (hmac_sha256_hex env) (rq_body req) (rq_signature req) secret
                    ''sha256='' = Inr False))"
proof (intro conjI allI impI)
  assume "JSON_parse env (rq_body req) = None"
  then show "POST env config reg req w = (Inr (Response 400 (Error_body ''Invalid JSON'')), w)"
    by (simp add: POST_def)
next
  fix payload repo secret
  assume a: "JSON_parse env (rq_body req) = Some (Parsed_object payload)
        \<and> pl_repository_full_name payload = Some (Some repo) \<and> repo \<noteq> []
        \<and> findSecret repo (c_projects config) = Some secret \<and> secret \<noteq> []
        \<and> (rq_signature req = None \<or> rq_signature req = Some []
            \<or> verifySignature (hmac_sha256_hex env) (rq_body req) (rq_signature req) secret
                 ''sha256='' = Inr False)"
  then have "verifySignature (hmac_sha256_hex env) (rq_body req) (rq_signature req) secret
                 ''sha256='' = Inr False"
    using verifySignature_missing [of "rq_signature req"] by blast
  with a show "POST env config reg req w
            = (Inr (Response 401 (Error_body ''Invalid signature'')), w)"
    by (simp add: POST_def truthy_def)
next
  fix b
  assume r: "fst (POST env config reg req w) = Inr (Response 400 b)"
  show "JSON_parse env (rq_body req) = None"
  proof (rule ccontr)
    assume "JSON_parse env (rq_body req) \<noteq> None"
    then obtain parsed where p: "JSON_parse env (rq_body req) = Some parsed" by blast
    from r show False
      unfolding POST_def Let_def p
      by (cases parsed)
         (simp_all split: option.splits if_splits sum.splits bool.splits prod.splits)
  qed
next
  fix b
  assume r: "fst (POST env config reg req w) = Inr (Response 401 b)"
  then show "\<exists>payload repo secret.
               JSON_parse env (rq_body req) = Some (Parsed_object payload)
               \<and> pl_repository_full_name payload = Some (Some repo) \<and> repo \<noteq> []
               \<and> findSecret repo (c_projects config) = Some secret \<and> secret \<noteq> []
               \<and> verifySignature (hmac_sha256_hex env) (rq_body req) (rq_signature req) secret
                    ''sha256='' = Inr False"
    unfolding POST_def Let_def
    by (simp add: truthy_def
          split: option.splits parsed_body.splits if_splits sum.splits bool.splits prod.splits)
qed

text \<open>
  Witness for POST_status_codes: the body that is not JSON gets 400; the approval delivery gets 401
  without its signature header and with the signature \<open>sha256=invalid\<close>.
\<close>

theorem POST_status_codes_witness:
  "JSON_parse (webhookEnv True) (rq_body notJsonRequest) = None
   \<and> fst (POST (webhookEnv True) makeConfig allPlugins notJsonRequest gatedWorld)
       = Inr (Response 400 (Error_body ''Invalid JSON''))
   \<and> rq_signature missingSignatureRequest = None
   \<and> fst (POST (webhookEnv True) makeConfig allPlugins missingSignatureRequest gatedWorld)
       = Inr (Response 401 (Error_body ''Invalid signature''))
   \<and> fst (POST (webhookEnv True) makeConfig allPlugins wrongSignatureRequest gatedWorld)
       = Inr (Response 401 (Error_body ''Invalid signature''))"
proof -
  have n: "JSON_parse (webhookEnv True) (rq_body notJsonRequest) = None"
    by (simp add: webhookEnv_def notJsonRequest_def approvedCommentBody_def)
  have p: "JSON_parse (webhookEnv True) (rq_body missingSignatureRequest)
             = Some (Parsed_object approvedCommentPayload)"
      "JSON_parse (webhookEnv True) (rq_body wrongSignatureRequest) = Some (Parsed_object approvedCommentPayload)"
      "pl_repository_full_name approvedCommentPayload = Some (Some ''org/my-app'')"
      "findSecret ''org/my-app'' (c_projects makeConfig) = Some ''test-secret''"
      "rq_signature missingSignatureRequest = None"
    by (simp_all add: webhookEnv_def missingSignatureRequest_def wrongSignatureRequest_def
          approvedCommentRequest_def approvedCommentPayload_def makeConfig_def makeProject_def)
  have w: "verifySignature (hmac_sha256_hex (webhookEnv True)) (rq_body wrongSignatureRequest)
             (rq_signature wrongSignatureRequest) ''test-secret'' ''sha256='' = Inr False"
    using verify_wrong [of True]
    by (simp add: wrongSignatureRequest_def approvedCommentRequest_def)
  note a = POST_status_codes [of "webhookEnv True" notJsonRequest makeConfig allPlugins gatedWorld]
  note b = POST_status_codes [of "webhookEnv True" missingSignatureRequest makeConfig allPlugins gatedWorld]
  note c = POST_status_codes [of "webhookEnv True" wrongSignatureRequest makeConfig allPlugins gatedWorld]
  from a [THEN conjunct1] n
  have r1: "fst (POST (webhookEnv True) makeConfig allPlugins notJsonRequest gatedWorld)
       = Inr (Response 400 (Error_body ''Invalid JSON''))"
    by simp
  from b [THEN conjunct2, THEN conjunct1, rule_format,
          of approvedCommentPayload "''org/my-app''" "''test-secret''"] p
  have r2: "fst (POST (webhookEnv True) makeConfig allPlugins missingSignatureRequest gatedWorld)
       = Inr (Response 401 (Error_body ''Invalid signature''))"
    by simp
  from c [THEN conjunct2, THEN conjunct1, rule_format,
          of approvedCommentPayload "''org/my-app''" "''test-secret''"] p w
  have r3: "fst (POST (webhookEnv True) makeConfig allPlugins wrongSignatureRequest gatedWorld)
       = Inr (Response 401 (Error_body ''Invalid signature''))"
    by simp
  from n p(5) r1 r2 r3 show ?thesis by simp
qed

text \<open>
  Counterexample to claim handleIssueComment_approval as stated: the comment matches the approval pattern and the
  session \<open>app-1\<close> for the issue is at the plan gate, but the project has no tracker
  configured; the handler sends the resume message and sets \<open>prpPhase\<close> to
  \<open>implementing\<close>, and posts no confirmation comment.
\<close>

theorem approval_without_tracker_counterexample:
  "APPROVAL_PATTERN_test (the (e_commentBody approvedCommentEvent))
   \<and> gatedSession \<in> set (w_store gatedWorld)
   \<and> isGatedSessionFor approvedCommentEvent gatedSession
   \<and> w_log (snd (handleIssueComment (webhookEnv True) approvedCommentEvent noTrackerConfig
                    allPlugins gatedWorld))
       = [Send ''app-1'' resume_message]
   \<and> map (\<lambda>s. s_metadata s ''prpPhase'')
        (w_store (snd (handleIssueComment (webhookEnv True) approvedCommentEvent noTrackerConfig
                         allPlugins gatedWorld)))
       = [Some ''implementing'']"
proof -
  have a: "e_commentBody approvedCommentEvent = Some ''approved''" "''approved'' \<noteq> []"
    by (simp_all add: approvedCommentEvent_def)
  have g: "find (isGatedSessionFor approvedCommentEvent) (w_store gatedWorld) = Some gatedSession"
    by (simp add: gatedWorld_def gated_ok)
  from handleIssueComment_resume [OF a approval_approved g, of "webhookEnv True" noTrackerConfig
     allPlugins] a approval_approved gated_ok
  show ?thesis
    by (simp add: webhookEnv_def noTrackerConfig_def makeConfig_def makeProject_def
          tracker_can_comment_def gatedWorld_def gatedSession_def existingSession_def
          updateMetadata_def)
qed

text \<open>
  Claim handleIssueComment_approval, amended. For an \<open>issue.comment\<close> event the handler changes nothing unless the
  comment body matches the approval pattern and some session is gated for the event (its
  \<open>issueId\<close> is the issue's URL or ends with a slash and the issue number, and its
  \<open>prpPhase\<close> is \<open>plan_gate\<close>). If both hold, it calls \<open>send\<close> with the resume message for
  the first such session; when \<open>send\<close> succeeds it sets that session's \<open>prpPhase\<close> to
  \<open>implementing\<close> if the session's project is configured, and posts the confirmation
  comment if the project's tracker plugin is registered with \<open>updateIssue\<close>. After a resume
  that updated the metadata, when no other session was gated for the issue, no session
  is gated for it any more, and a second comment on the issue changes nothing.
\<close>

theorem handleIssueComment_approval:
  "((\<not> (\<exists>body. e_commentBody event = Some body \<and> body \<noteq> [] \<and> APPROVAL_PATTERN_test body)
      \<or> \<not> (\<exists>s\<in>set (w_store w). isGatedSessionFor event s))
     \<longrightarrow> snd (handleIssueComment env event config reg w) = w)
   \<and> ((\<exists>body. e_commentBody event = Some body \<and> body \<noteq> [] \<and> APPROVAL_PATTERN_test body)
        \<and> (\<exists>s\<in>set (w_store w). isGatedSessionFor event s)
      \<longrightarrow> (\<exists>g. find (isGatedSessionFor event) (w_store w) = Some g
              \<and> g \<in> set (w_store w) \<and> isGatedSessionFor event g
              \<and> w_log (snd (handleIssueComment env event config reg w))
                  = w_log w @ [Send (s_id g) resume_message]
                    @ (if send_ok env (s_id g) resume_message
                          \<and> tracker_can_comment reg (map_of (c_projects config) (s_projectId g))
                       then [UpdateIssue (i_id (e_issue event)) (confirmation_comment (s_id g))
                               (s_projectId g)]
                       else [])
              \<and> w_store (snd (handleIssueComment env event config reg w))
                  = (if send_ok env (s_id g) resume_message
                        \<and> map_of (c_projects config) (s_projectId g) \<noteq> None
                     then updateMetadata (s_projectId g) (s_id g) ''prpPhase'' ''implementing''
                            (w_store w)
                     else w_store w)))
   \<and> (\<forall>g env' event'.
         (\<exists>body. e_commentBody event = Some body \<and> body \<noteq> [] \<and> APPROVAL_PATTERN_test body)
         \<and> find (isGatedSessionFor event) (w_store w) = Some g
         \<and> send_ok env (s_id g) resume_message
         \<and> map_of (c_projects config) (s_projectId g) \<noteq> None
         \<and> (\<forall>s\<in>set (w_store w). isGatedSessionFor event s
               \<longrightarrow> s_id s = s_id g \<and> s_projectId s = s_projectId g)
         \<and> i_url (e_issue event') = i_url (e_issue event)
         \<and> i_id (e_issue event') = i_id (e_issue event)
       \<longrightarrow> find (isGatedSessionFor event')
              (w_store (snd (handleIssueComment env event config reg w))) = None
           \<and> snd (handleIssueComment env' event' config reg
                    (snd (handleIssueComment env event config reg w)))
              = snd (handleIssueComment env event config reg w))"
proof (intro conjI allI impI)
  assume "\<not> (\<exists>body. e_commentBody event = Some body \<and> body \<noteq> [] \<and> APPROVAL_PATTERN_test body)
      \<or> \<not> (\<exists>s\<in>set (w_store w). isGatedSessionFor event s)"
  then have "\<not> (\<exists>body. e_commentBody event = Some body \<and> body \<noteq> [] \<and> APPROVAL_PATTERN_test body)
           \<or> find (isGatedSessionFor event) (w_store w) = None"
    by (auto simp: find_None_iff)
  then show "snd (handleIssueComment env event config reg w) = w"
    by (rule handleIssueComment_skip)
next
  assume a: "(\<exists>body. e_commentBody event = Some body \<and> body \<noteq> [] \<and> APPROVAL_PATTERN_test body)
        \<and> (\<exists>s\<in>set (w_store w). isGatedSessionFor event s)"
  then obtain body where b: "e_commentBody event = Some body" "body \<noteq> []"
      "APPROVAL_PATTERN_test body"
    by blast
  from a have "find (isGatedSessionFor event) (w_store w) \<noteq> None"
    by (auto simp: find_None_iff)
  then obtain g where g: "find (isGatedSessionFor event) (w_store w) = Some g"
    by blast
  then have gs: "g \<in> set (w_store w)" "isGatedSessionFor event g"
    by (auto simp: find_Some_iff)
  from handleIssueComment_resume [OF b g, of env config reg] g gs
  show "\<exists>g. find (isGatedSessionFor event) (w_store w) = Some g
              \<and> g \<in> set (w_store w) \<and> isGatedSessionFor event g
              \<and> w_log (snd (handleIssueComment env event config reg w))
                  = w_log w @ [Send (s_id g) resume_message]
                    @ (if send_ok env (s_id g) resume_message
                          \<and> tracker_can_comment reg (map_of (c_projects config) (s_projectId g))
                       then [UpdateIssue (i_id (e_issue event)) (confirmation_comment (s_id g))
                               (s_projectId g)]
                       else [])
              \<and> w_store (snd (handleIssueComment env event config reg w))
                  = (if send_ok env (s_id g) resume_message
                        \<and> map_of (c_projects config) (s_projectId g) \<noteq> None
                     then updateMetadata (s_projectId g) (s_id g) ''prpPhase'' ''implementing''
                            (w_store w)
                     else w_store w)"
    by (intro exI [of _ g]) auto
next
  fix g :: session and env' :: env and event' :: tracker_event
  assume a: "(\<exists>body. e_commentBody event = Some body \<and> body \<noteq> [] \<and> APPROVAL_PATTERN_test body)
         \<and> find (isGatedSessionFor event) (w_store w) = Some g
         \<and> send_ok env (s_id g) resume_message
         \<and> map_of (c_projects config) (s_projectId g) \<noteq> None
         \<and> (\<forall>s\<in>set (w_store w). isGatedSessionFor event s
               \<longrightarrow> s_id s = s_id g \<and> s_projectId s = s_projectId g)
         \<and> i_url (e_issue event') = i_url (e_issue event)
         \<and> i_id (e_issue event') = i_id (e_issue event)"
  then obtain body where b: "e_commentBody event = Some body" "body \<noteq> []"
      "APPROVAL_PATTERN_test body"
    by blast
  from a have g: "find (isGatedSessionFor event) (w_store w) = Some g" by simp
  from a have ok: "send_ok env (s_id g) resume_message"
      "map_of (c_projects config) (s_projectId g) \<noteq> None"
    by simp_all
  from a have uniq: "\<forall>s\<in>set (w_store w). isGatedSessionFor event s
               \<longrightarrow> s_id s = s_id g \<and> s_projectId s = s_projectId g"
    by simp
  from a have iss: "i_url (e_issue event') = i_url (e_issue event)"
      "i_id (e_issue event') = i_id (e_issue event)"
    by simp_all
  have same: "isGatedSessionFor event' = isGatedSessionFor event"
    using iss by (rule isGatedSessionFor_same_issue)
  have st: "w_store (snd (handleIssueComment env event config reg w))
          = updateMetadata (s_projectId g) (s_id g) ''prpPhase'' ''implementing'' (w_store w)"
    using handleIssueComment_resume [OF b g, of env config reg] ok by simp
  have "find (isGatedSessionFor event)
                 (updateMetadata (s_projectId g) (s_id g) ''prpPhase'' ''implementing''
                    (w_store w)) = None"
    using uniq by (rule no_gated_after_update)
  with st same
  show n: "find (isGatedSessionFor event')
             (w_store (snd (handleIssueComment env event config reg w))) = None"
    by simp
  then show "snd (handleIssueComment env' event' config reg
                    (snd (handleIssueComment env event config reg w)))
              = snd (handleIssueComment env event config reg w)"
    by (intro handleIssueComment_skip) simp
qed

text \<open>
  Witness for handleIssueComment_approval: the comment "approved" resumes \<open>app-1\<close>, posts the confirmation on
  issue 42 and sets \<open>prpPhase\<close> to \<open>implementing\<close>; the comment "lgtm" after it changes
  nothing.
\<close>

theorem handleIssueComment_approval_witness:
  "(\<exists>body. e_commentBody approvedCommentEvent = Some body \<and> body \<noteq> []
       \<and> APPROVAL_PATTERN_test body)
   \<and> (\<exists>s\<in>set (w_store gatedWorld). isGatedSessionFor approvedCommentEvent s)
   \<and> w_log world_after_approval
       = [Send ''app-1'' resume_message,
          UpdateIssue ''42'' (confirmation_comment ''app-1'') ''my-app'']
   \<and> map (\<lambda>s. s_metadata s ''prpPhase'') (w_store world_after_approval)
       = [Some ''implementing'']
   \<and> snd (handleIssueComment (webhookEnv True) lgtmCommentEvent makeConfig allPlugins
            world_after_approval) = world_after_approval"
proof -
  have a: "\<exists>body. e_commentBody approvedCommentEvent = Some body \<and> body \<noteq> []
       \<and> APPROVAL_PATTERN_test body"
    by (simp add: approvedCommentEvent_def approval_approved)
  have s: "\<exists>s\<in>set (w_store gatedWorld). isGatedSessionFor approvedCommentEvent s"
    by (simp add: gatedWorld_def gated_ok)
  have g: "find (isGatedSessionFor approvedCommentEvent) (w_store gatedWorld) = Some gatedSession"
    by (simp add: gatedWorld_def gated_ok)
  note inst = handleIssueComment_approval [of approvedCommentEvent gatedWorld "webhookEnv True" makeConfig allPlugins]
  from inst [THEN conjunct2, THEN conjunct1] a s g
  have l: "w_log world_after_approval
       = [Send ''app-1'' resume_message,
          UpdateIssue ''42'' (confirmation_comment ''app-1'') ''my-app'']"
    and m: "map (\<lambda>s. s_metadata s ''prpPhase'') (w_store world_after_approval)
       = [Some ''implementing'']"
    by (simp_all add: world_after_approval_def webhookEnv_def gatedWorld_def gatedSession_def
          existingSession_def makeConfig_def makeProject_def tracker_can_comment_def
          allPlugins_def approvedCommentEvent_def makeIssue_def updateMetadata_def)
  have u: "\<forall>s\<in>set (w_store gatedWorld). isGatedSessionFor approvedCommentEvent s
             \<longrightarrow> s_id s = s_id gatedSession \<and> s_projectId s = s_projectId gatedSession"
    by (simp add: gatedWorld_def)
  have o: "send_ok (webhookEnv True) (s_id gatedSession) resume_message
           \<and> map_of (c_projects makeConfig) (s_projectId gatedSession) \<noteq> None
           \<and> i_url (e_issue lgtmCommentEvent) = i_url (e_issue approvedCommentEvent)
           \<and> i_id (e_issue lgtmCommentEvent) = i_id (e_issue approvedCommentEvent)"
    by (simp add: webhookEnv_def makeConfig_def gatedSession_def existingSession_def
          lgtmCommentEvent_def)
  from inst [THEN conjunct2, THEN conjunct2, rule_format,
             of gatedSession lgtmCommentEvent "webhookEnv True"] a g u o
  have i: "snd (handleIssueComment (webhookEnv True) lgtmCommentEvent makeConfig allPlugins
            world_after_approval) = world_after_approval"
    unfolding world_after_approval_def by blast
  from a s l m i show ?thesis by blast
qed

text \<open>
  Claim resume_failure_is_contained. If \<open>SessionManager.send\<close> fails while the handler resumes a session that is at
  the plan gate, the handler returns \<open>{ok: true, skipped: "resume failed"}\<close>; the store
  is unchanged, so that the session's \<open>prpPhase\<close> remains \<open>plan_gate\<close>; the only call made
  is the \<open>send\<close> itself, so that no confirmation comment is posted; and \<open>POST\<close>, once the
  signature is verified and the delivery is normalised to this event, returns the handler's
  result with status 200 and throws nothing.
\<close>

theorem resume_failure_is_contained:
  assumes approval: "e_commentBody event = Some body" "body \<noteq> []" "APPROVAL_PATTERN_test body"
    and gated: "find (isGatedSessionFor event) (w_store w) = Some g"
    and fails: "\<not> send_ok env (s_id g) resume_message"
  shows "handleIssueComment env event config reg w
           = (Skipped ''resume failed'', w\<lparr> w_log := w_log w @ [Send (s_id g) resume_message] \<rparr>)
         \<and> w_store (snd (handleIssueComment env event config reg w)) = w_store w
         \<and> s_metadata g ''prpPhase'' = Some ''plan_gate''
         \<and> (\<forall>req payload repo secret.
               JSON_parse env (rq_body req) = Some (Parsed_object payload)
               \<and> pl_repository_full_name payload = Some (Some repo) \<and> repo \<noteq> []
               \<and> findSecret repo (c_projects config) = Some secret \<and> secret \<noteq> []
               \<and> verifySignature (hmac_sha256_hex env) (rq_body req) (rq_signature req) secret
                    ''sha256='' = Inr True
               \<and> normalizeGitHubEvent (case rq_github_event req of None \<Rightarrow> [] | Some e \<Rightarrow> e)
                    (pl_action payload)
                    (case rq_github_delivery req of None \<Rightarrow> [] | Some d \<Rightarrow> d) payload
                  = Some event
               \<and> e_event event = Issue_comment
               \<longrightarrow> POST env config reg req w
                     = (Inr (Response 200 (Skipped ''resume failed'')),
                        w\<lparr> w_log := w_log w @ [Send (s_id g) resume_message] \<rparr>))"
proof -
  have h: "handleIssueComment env event config reg w
           = (Skipped ''resume failed'', w\<lparr> w_log := w_log w @ [Send (s_id g) resume_message] \<rparr>)"
    using handleIssueComment_resume [OF approval gated, of env config reg] fails by simp
  from gated have "isGatedSessionFor event g"
    by (auto simp: find_Some_iff)
  then have m: "s_metadata g ''prpPhase'' = Some ''plan_gate''"
    by (auto simp: isGatedSessionFor_def Let_def split: option.splits if_splits)
  have p: "POST env config reg req w
             = (Inr (Response 200 (Skipped ''resume failed'')),
                w\<lparr> w_log := w_log w @ [Send (s_id g) resume_message] \<rparr>)"
    if "JSON_parse env (rq_body req) = Some (Parsed_object payload)
               \<and> pl_repository_full_name payload = Some (Some repo) \<and> repo \<noteq> []
               \<and> findSecret repo (c_projects config) = Some secret \<and> secret \<noteq> []
               \<and> verifySignature (hmac_sha256_hex env) (rq_body req) (rq_signature req) secret
                    ''sha256='' = Inr True
               \<and> normalizeGitHubEvent (case rq_github_event req of None \<Rightarrow> [] | Some e \<Rightarrow> e)
                    (pl_action payload)
                    (case rq_github_delivery req of None \<Rightarrow> [] | Some d \<Rightarrow> d) payload
                  = Some event
               \<and> e_event event = Issue_comment"
    for req payload repo secret
    using that POST_issue_comment [of env req payload repo config secret event reg w]
    by (simp add: h)
  from h m p show ?thesis by (simp, blast)
qed

text \<open>
  Witness for resume_failure_is_contained: the approval delivery of the test suite, correctly signed, while
  \<open>send\<close> rejects.
\<close>

theorem resume_failure_is_contained_witness:
  "find (isGatedSessionFor approvedCommentEvent) (w_store gatedWorld) = Some gatedSession
   \<and> \<not> send_ok (webhookEnv False) (s_id gatedSession) resume_message
   \<and> fst (POST (webhookEnv False) makeConfig allPlugins approvedCommentRequest gatedWorld)
       = Inr (Response 200 (Skipped ''resume failed''))
   \<and> w_log (snd (POST (webhookEnv False) makeConfig allPlugins approvedCommentRequest gatedWorld))
       = [Send ''app-1'' resume_message]
   \<and> map (\<lambda>s. s_metadata s ''prpPhase'')
        (w_store (snd (POST (webhookEnv False) makeConfig allPlugins approvedCommentRequest
           gatedWorld))) = [Some ''plan_gate'']"
proof -
  have a: "e_commentBody approvedCommentEvent = Some ''approved''" "''approved'' \<noteq> []"
    by (simp_all add: approvedCommentEvent_def)
  have g: "find (isGatedSessionFor approvedCommentEvent) (w_store gatedWorld) = Some gatedSession"
    by (simp add: gatedWorld_def gated_ok)
  have f: "\<not> send_ok (webhookEnv False) (s_id gatedSession) resume_message"
    by (simp add: webhookEnv_def)
  have r: "JSON_parse (webhookEnv False) (rq_body approvedCommentRequest) = Some (Parsed_object approvedCommentPayload)
           \<and> pl_repository_full_name approvedCommentPayload = Some (Some ''org/my-app'')
           \<and> ''org/my-app'' \<noteq> []
           \<and> findSecret ''org/my-app'' (c_projects makeConfig) = Some ''test-secret''
           \<and> ''test-secret'' \<noteq> []
           \<and> verifySignature (hmac_sha256_hex (webhookEnv False)) (rq_body approvedCommentRequest)
                (rq_signature approvedCommentRequest) ''test-secret'' ''sha256='' = Inr True
           \<and> normalizeGitHubEvent
                (case rq_github_event approvedCommentRequest of None \<Rightarrow> [] | Some e \<Rightarrow> e)
                (pl_action approvedCommentPayload)
                (case rq_github_delivery approvedCommentRequest of None \<Rightarrow> [] | Some d \<Rightarrow> d)
                approvedCommentPayload
              = Some approvedCommentEvent
           \<and> e_event approvedCommentEvent = Issue_comment"
    using verify_ok [of False] normalize_comment
    by (simp add: webhookEnv_def approvedCommentRequest_def approvedCommentPayload_def
          makeConfig_def makeProject_def approvedCommentEvent_def)
  from resume_failure_is_contained [OF a approval_approved g f, of makeConfig allPlugins] r
  have "POST (webhookEnv False) makeConfig allPlugins approvedCommentRequest gatedWorld
          = (Inr (Response 200 (Skipped ''resume failed'')),
             gatedWorld\<lparr> w_log := w_log gatedWorld @ [Send (s_id gatedSession) resume_message] \<rparr>)"
    by blast
  with g f show ?thesis
    by (simp add: gatedWorld_def gatedSession_def existingSession_def)
qed

subsection \<open>Plan gate\<close>




end
